theory Spec2Isabelle
  imports Main "HOL-Library.Sublist"
begin

section \<open>HTTL-S (statejs.js): values of the host language\<close>

text \<open>
  The library is JavaScript running in a browser. The model keeps the parts of a
  JavaScript value the library looks at: its type (\<open>typeof\<close>), its truthiness,
  its identity when it is an object. Numbers are the integer-valued ones (\<open>Num\<close>) and
  \<open>NaN\<close>; fractions, the infinities and \<open>-0\<close> are outside the model. An object, an
  array or a proxy is a reference \<open>Ref a\<close> to its address. Strings are byte
  sequences (UTF-8).
\<close>

type_synonym addr = nat

datatype jsval =
    Undefined
  | Null
  | Bool bool
  | Num int
  | NaN
  | Str string
  | Ref addr

text \<open>An exception: its constructor's name and its message.\<close>

datatype errkind = PlainError | TypeError | ReferenceError | SyntaxError | RangeError

datatype error = Exn errkind string

fun message :: "error \<Rightarrow> string" where
  "message (Exn k m) = m"

text \<open>\<open>typeof v === 'object' && v !== null\<close>.\<close>

fun is_object :: "jsval \<Rightarrow> bool" where
  "is_object (Ref a) = True"
| "is_object v = False"

text \<open>\<open>Boolean(v)\<close>, the test of \<open>if (v)\<close>, \<open>!v\<close> and \<open>v || d\<close>.\<close>

fun truthy :: "jsval \<Rightarrow> bool" where
  "truthy Undefined = False"
| "truthy Null = False"
| "truthy (Bool b) = b"
| "truthy (Num n) = (n \<noteq> 0)"
| "truthy NaN = False"
| "truthy (Str s) = (s \<noteq> [])"
| "truthy (Ref a) = True"

text \<open>\<open>a === b\<close>: equal values of the same type, objects by identity, and
  \<open>NaN\<close> different from itself.\<close>

definition strict_eq :: "jsval \<Rightarrow> jsval \<Rightarrow> bool" where
  "strict_eq a b = (a = b \<and> a \<noteq> NaN)"

section \<open>Strings\<close>

text \<open>\<open>find_sub n s\<close> splits \<open>s\<close> at the first occurrence of \<open>n\<close>: the text
  before it and the text after it.\<close>

fun find_sub :: "string \<Rightarrow> string \<Rightarrow> (string \<times> string) option" where
  "find_sub n [] = (if n = [] then Some ([], []) else None)"
| "find_sub n (c # cs) =
     (if prefix n (c # cs) then Some ([], drop (length n) (c # cs))
      else (case find_sub n cs of None \<Rightarrow> None | Some (a, b) \<Rightarrow> Some (c # a, b)))"

lemma find_sub_Some: "find_sub n s = Some (a, b) \<Longrightarrow> s = a @ n @ b"
proof (induction s arbitrary: a b)
  case Nil
  then show ?case by (simp split: if_splits)
next
  case (Cons c cs)
  show ?case
  proof (cases "prefix n (c # cs)")
    case True
    then obtain r where r: "c # cs = n @ r" by (auto simp: prefix_def)
    from True Cons.prems have "a = []" "b = drop (length n) (c # cs)" by auto
    with r show ?thesis by simp
  next
    case False
    with Cons.prems obtain a' where "find_sub n cs = Some (a', b)" "a = c # a'"
      by (auto split: option.splits)
    with Cons.IH show ?thesis by simp
  qed
qed

text \<open>
  \<open>s.replace(/OPEN([\s\S]*?)CLOSE/g, f)\<close> for literal delimiters: the leftmost
  \<open>OPEN\<close>, then the nearest \<open>CLOSE\<close> after it (the group is lazy); \<open>f\<close> gets the
  whole match and the group, and the scan goes on after the match. Without a
  closing delimiter nothing more matches. The library uses it with \<open>{{\<close>, \<open>}}\<close>
  and with \<open>${\<close>, \<open>}\<close>.
\<close>

function replace_between ::
  "string \<Rightarrow> string \<Rightarrow> (string \<Rightarrow> string \<Rightarrow> string) \<Rightarrow> string \<Rightarrow> string" where
  "replace_between opn cls f s =
     (if opn = [] then s
      else (case find_sub opn s of
              None \<Rightarrow> s
            | Some (pre, rest) \<Rightarrow>
                (case find_sub cls rest of
                   None \<Rightarrow> s
                 | Some (expr, post) \<Rightarrow>
                     pre @ f (opn @ expr @ cls) expr @ replace_between opn cls f post)))"
  by pat_completeness auto
termination
proof (relation "measure (\<lambda>(opn, cls, f, s). length s)", goal_cases)
  case 1
  show ?case by simp
next
  case (2 opn cls f s x2 pre rest x2a expr post)
  then have "s = pre @ opn @ rest" "rest = expr @ cls @ post"
    by (auto dest: find_sub_Some)
  with 2 show ?case by simp
qed

text \<open>\<open>s.replace(/LIT/g, r)\<close> for a literal pattern and a replacement without
  \<open>$\<close>: every occurrence, left to right, without overlap.\<close>

function replace_all :: "string \<Rightarrow> string \<Rightarrow> string \<Rightarrow> string" where
  "replace_all lit r s =
     (if lit = [] then s
      else (case find_sub lit s of
              None \<Rightarrow> s
            | Some (pre, post) \<Rightarrow> pre @ r @ replace_all lit r post))"
  by pat_completeness auto
termination
proof (relation "measure (\<lambda>(lit, r, s). length s)", goal_cases)
  case 1
  show ?case by simp
next
  case (2 lit r s x2 pre post)
  then have "s = pre @ lit @ post" by (auto dest: find_sub_Some)
  with 2 show ?case by simp
qed

text \<open>The white space and line terminators of the language, each as its UTF-8
  encoding: what \<open>trim()\<close> removes.\<close>

definition js_whitespace :: "string list" where
  "js_whitespace =
     [[CHR 0x09], [CHR 0x0A], [CHR 0x0B], [CHR 0x0C], [CHR 0x0D], [CHR 0x20],
      [CHR 0xC2, CHR 0xA0], [CHR 0xE1, CHR 0x9A, CHR 0x80],
      [CHR 0xE2, CHR 0x80, CHR 0x80], [CHR 0xE2, CHR 0x80, CHR 0x81],
      [CHR 0xE2, CHR 0x80, CHR 0x82], [CHR 0xE2, CHR 0x80, CHR 0x83],
      [CHR 0xE2, CHR 0x80, CHR 0x84], [CHR 0xE2, CHR 0x80, CHR 0x85],
      [CHR 0xE2, CHR 0x80, CHR 0x86], [CHR 0xE2, CHR 0x80, CHR 0x87],
      [CHR 0xE2, CHR 0x80, CHR 0x88], [CHR 0xE2, CHR 0x80, CHR 0x89],
      [CHR 0xE2, CHR 0x80, CHR 0x8A], [CHR 0xE2, CHR 0x80, CHR 0xA8],
      [CHR 0xE2, CHR 0x80, CHR 0xA9], [CHR 0xE2, CHR 0x80, CHR 0xAF],
      [CHR 0xE2, CHR 0x81, CHR 0x9F], [CHR 0xE3, CHR 0x80, CHR 0x80],
      [CHR 0xEF, CHR 0xBB, CHR 0xBF]]"

function strip_any :: "string list \<Rightarrow> string \<Rightarrow> string" where
  "strip_any ws s =
     (case find (\<lambda>w. w \<noteq> [] \<and> prefix w s) ws of
        None \<Rightarrow> s
      | Some w \<Rightarrow> strip_any ws (drop (length w) s))"
  by pat_completeness auto
termination
proof (relation "measure (\<lambda>(ws, s). length s)", goal_cases)
  case 1
  show ?case by simp
next
  case (2 ws s w)
  then have "w \<noteq> []" "prefix w s" by (auto simp: find_Some_iff)
  then show ?case by (auto simp: prefix_def)
qed

definition js_trim :: "string \<Rightarrow> string" where
  "js_trim s = rev (strip_any (map rev js_whitespace) (rev (strip_any js_whitespace s)))"

text \<open>
  \<open>String(n)\<close> of a number of the model, an integer. The digits are produced
  from the last one, in front of those already produced. Below \<open>10^21\<close> the
  numeral is the decimal one. From \<open>10^21\<close> on \<open>String\<close> switches to the exponent
  notation: the first significant digit, a point and the other significant
  digits if there are any, \<open>e+\<close> and the exponent (\<open>String(1e21)\<close> is \<open>1e+21\<close>,
  \<open>String(12e21)\<close> is \<open>1.2e+22\<close>). The integers of the model beyond \<open>2^53\<close> that
  are not doubles are not numbers of the code; they print by the same rule
  with all their significant digits.
\<close>

function decimal_digits :: "nat \<Rightarrow> string \<Rightarrow> string" where
  "decimal_digits n acc =
     (let acc' = (''0123456789'' ! (n mod 10)) # acc
      in if n div 10 = 0 then acc' else decimal_digits (n div 10) acc')"
  by pat_completeness auto
termination
  by (relation "measure fst") auto

definition exponent_form :: "string \<Rightarrow> string" where
  "exponent_form ds =
     (case rev (dropWhile (\<lambda>c. c = CHR ''0'') (rev ds)) of
        [] \<Rightarrow> ds
      | d # significant \<Rightarrow>
          (if significant = [] then [d] else d # CHR ''.'' # significant) @
          ''e+'' @ decimal_digits (length ds - 1) [])"

definition show_number :: "int \<Rightarrow> string" where
  "show_number i =
     (let ds = decimal_digits (nat \<bar>i\<bar>) [];
          numeral = (if length ds \<le> 21 then ds else exponent_form ds)
      in if 0 \<le> i then numeral else CHR ''-'' # numeral)"

section \<open>The host\<close>

text \<open>
  What the browser does for the library and the repository does not define, as
  parameters of the model:
  \<^item> \<open>hEval keys_values expression\<close>: \<open>new Function(...keys, `return (${expression})`)(...values)\<close>,
    the value of the expression or the exception of compiling or running it;
  \<^item> \<open>hObjString a\<close>: \<open>String(o)\<close> of an object;
  \<^item> \<open>hToPrimitive a\<close>: the primitive an object converts to in arithmetic and in
    comparisons, or the exception its conversion throws;
  \<^item> \<open>hStrNum s\<close>: the number a string converts to (\<open>None\<close> for \<open>NaN\<close>);
  \<^item> \<open>hElems a\<close>: the elements \<open>o[0] .. o[o.length - 1]\<close> of an object with a
    numeric \<open>length\<close>, \<open>None\<close> for an object without one;
  \<^item> \<open>hQueryTemplate attr ident markup\<close>:
    \<open>querySelector(`template[attr="ident"]`)\<close> over an element whose content is
    \<open>markup\<close>: the \<open>innerHTML\<close> of the template found, if any, or the exception of
    a selector that does not parse;
  \<^item> \<open>hReplaceWord name r s\<close>:
    \<open>s.replace(new RegExp(`\\b${name}\\b`, 'g'), r)\<close>, or the exception of a
    pattern that does not compile;
  \<^item> \<open>hMaxLength\<close>: the length of the longest string the engine makes. A
    concatenation whose result would be longer throws
    \<open>RangeError: Invalid string length\<close>.
\<close>

record host =
  hEval :: "(string \<times> jsval) list \<Rightarrow> string \<Rightarrow> error + jsval"
  hObjString :: "addr \<Rightarrow> error + string"
  hToPrimitive :: "addr \<Rightarrow> error + jsval"
  hStrNum :: "string \<Rightarrow> int option"
  hElems :: "addr \<Rightarrow> jsval list option"
  hQueryTemplate :: "string \<Rightarrow> string \<Rightarrow> string \<Rightarrow> error + string option"
  hReplaceWord :: "string \<Rightarrow> string \<Rightarrow> string \<Rightarrow> error + string"
  hMaxLength :: nat

text \<open>\<open>String(v)\<close>.\<close>

fun js_String :: "host \<Rightarrow> jsval \<Rightarrow> error + string" where
  "js_String h Undefined = Inr ''undefined''"
| "js_String h Null = Inr ''null''"
| "js_String h (Bool b) = Inr (if b then ''true'' else ''false'')"
| "js_String h (Num n) = Inr (show_number n)"
| "js_String h NaN = Inr ''NaN''"
| "js_String h (Str s) = Inr s"
| "js_String h (Ref a) = hObjString h a"

text \<open>
  \<open>a + b\<close> on two strings, where a render appends to its output: the output
  of a loop grows with every iteration, so its length is bounded by the engine
  only. Lengths are counted in the characters of the model. The other strings
  a render builds (a template literal, the result of a \<open>replace\<close>) are taken
  to be within the limit.
\<close>

definition invalid_length :: error where
  "invalid_length = Exn RangeError ''Invalid string length''"

definition js_append :: "host \<Rightarrow> string \<Rightarrow> string \<Rightarrow> error + string" where
  "js_append h a b = (if hMaxLength h < length a + length b then Inl invalid_length else Inr (a @ b))"

section \<open>Expression evaluation and mustache interpolation\<close>

text \<open>
  \<^verbatim>\<open>
  function unsafeEval(expression, context = {}) {
      try {
          const keys = Object.keys(context);
          const values = Object.values(context);
          for (const varName of watchedVars) {
              if (!(varName in context) && varName in window) {
                  keys.push(varName);
                  values.push(window[varName]);
              }
          }
          const fn = new Function(...keys, `return (${expression})`);
          return fn(...values);
      } catch (e) {
          console.error('unsafeEval error:', expression, e);
          return undefined;
      }
  }
  \<close>
  \<open>genv\<close> lists the watched names that are on \<open>window\<close>, in the order of
  \<open>watchedVars\<close>, each with the value its getter returns. The console is not
  modelled.
\<close>

definition unsafeEval :: "host \<Rightarrow> (string \<times> jsval) list \<Rightarrow> string \<Rightarrow> (string \<times> jsval) list \<Rightarrow> jsval" where
  "unsafeEval h genv expression ctx =
     (case hEval h (ctx @ filter (\<lambda>(k, v). k \<notin> set (map fst ctx)) genv) expression of
        Inl e \<Rightarrow> Undefined
      | Inr v \<Rightarrow> v)"

text \<open>
  \<^verbatim>\<open>
  function parseTemplate(template) {
      return template.replace(/\{\{([\s\S]*?)\}\}/g, function (match, expression) {
          try {
              const result = unsafeEval(expression.trim());
              if (result !== undefined && result !== null) {
                  return String(result);
              }
              return '';
          } catch (error) {
              console.error('Template parse error:', expression, error);
              return match;
          }
      });
  }
  \<close>
  Inside the \<open>try\<close> only \<open>String(result)\<close> can throw: \<open>unsafeEval\<close> has caught
  every exception of the expression itself.
\<close>

definition mustache :: "host \<Rightarrow> (string \<times> jsval) list \<Rightarrow> string \<Rightarrow> string \<Rightarrow> string" where
  "mustache h genv match expression =
     (let result = unsafeEval h genv (js_trim expression) [] in
      if result \<noteq> Undefined \<and> result \<noteq> Null
      then (case js_String h result of Inl error \<Rightarrow> match | Inr s \<Rightarrow> s)
      else [])"

definition parseTemplate :: "host \<Rightarrow> (string \<times> jsval) list \<Rightarrow> string \<Rightarrow> string" where
  "parseTemplate h genv template = replace_between ''{{'' ''}}'' (mustache h genv) template"

section \<open>Numbers from attributes and values\<close>

text \<open>\<open>el.getAttribute(name)\<close> is \<open>None\<close> for \<open>null\<close>. In a template literal or
  as the source of an expression, \<open>null\<close> reads \<open>null\<close>.\<close>

definition attr_text :: "string option \<Rightarrow> string" where
  "attr_text a = (case a of None \<Rightarrow> ''null'' | Some s \<Rightarrow> s)"

text \<open>\<open>!s\<close> for a string or \<open>null\<close>.\<close>

definition present :: "string option \<Rightarrow> bool" where
  "present a = (case a of None \<Rightarrow> False | Some s \<Rightarrow> s \<noteq> [])"

definition digit_of :: "char \<Rightarrow> nat option" where
  "digit_of c =
     (let k = (of_char c :: nat) in
      if 48 \<le> k \<and> k \<le> 57 then Some (k - 48)
      else if 97 \<le> k \<and> k \<le> 122 then Some (k - 87)
      else if 65 \<le> k \<and> k \<le> 90 then Some (k - 55)
      else None)"

definition is_digit :: "nat \<Rightarrow> char \<Rightarrow> bool" where
  "is_digit radix c = (case digit_of c of None \<Rightarrow> False | Some d \<Rightarrow> d < radix)"

text \<open>\<open>parseInt(s)\<close> without a radix: leading white space, a sign, \<open>0x\<close> for
  base 16, then the longest run of digits; \<open>None\<close> is \<open>NaN\<close>.\<close>

definition parseInt :: "string \<Rightarrow> int option" where
  "parseInt s =
     (let s1 = strip_any js_whitespace s;
          neg = (take 1 s1 = ''-'');
          s2 = (if take 1 s1 = ''-'' \<or> take 1 s1 = ''+'' then drop 1 s1 else s1);
          hex = (take 2 s2 = ''0x'' \<or> take 2 s2 = ''0X'');
          radix = (if hex then 16 else 10);
          s3 = (if hex then drop 2 s2 else s2);
          ds = takeWhile (is_digit radix) s3;
          n = foldl (\<lambda>acc c. acc * radix + (case digit_of c of None \<Rightarrow> 0 | Some d \<Rightarrow> d)) 0 ds
      in if ds = [] then None else Some (if neg then - int n else int n))"

text \<open>The number a primitive converts to, and the number a value converts to
  (an object through the primitive the host gives for it).\<close>

fun prim_number :: "host \<Rightarrow> jsval \<Rightarrow> int option" where
  "prim_number h Undefined = None"
| "prim_number h Null = Some 0"
| "prim_number h (Bool b) = Some (if b then 1 else 0)"
| "prim_number h (Num n) = Some n"
| "prim_number h NaN = None"
| "prim_number h (Str s) = hStrNum h s"
| "prim_number h (Ref a) = None"

fun to_primitive :: "host \<Rightarrow> jsval \<Rightarrow> error + jsval" where
  "to_primitive h (Ref a) = hToPrimitive h a"
| "to_primitive h v = Inr v"

definition to_number :: "host \<Rightarrow> jsval \<Rightarrow> error + int option" where
  "to_number h v = (case to_primitive h v of Inl e \<Rightarrow> Inl e | Inr p \<Rightarrow> Inr (prim_number h p))"

text \<open>Strings compare byte by byte, which orders them by code point. (The host
  compares UTF-16 code units; the two orders differ only between a character
  outside the basic plane and one from U+E000 up.)\<close>

fun str_less :: "string \<Rightarrow> string \<Rightarrow> bool" where
  "str_less [] [] = False"
| "str_less [] (y # ys) = True"
| "str_less (x # xs) [] = False"
| "str_less (x # xs) (y # ys) =
     (if (of_char x :: nat) < of_char y then True
      else if (of_char y :: nat) < of_char x then False
      else str_less xs ys)"

text \<open>The comparison behind \<open><\<close>, \<open>>\<close>, \<open><=\<close> and \<open>>=\<close>: \<open>js_less h x y\<close> is
  whether \<open>x\<close> is less than \<open>y\<close>, \<open>None\<close> when one of them is \<open>NaN\<close> as a
  number, or the exception of converting an object.\<close>

definition js_less :: "host \<Rightarrow> jsval \<Rightarrow> jsval \<Rightarrow> error + bool option" where
  "js_less h x y =
     (case to_primitive h x of
        Inl e \<Rightarrow> Inl e
      | Inr px \<Rightarrow>
          (case to_primitive h y of
             Inl e \<Rightarrow> Inl e
           | Inr py \<Rightarrow>
               (case (px, py) of
                  (Str a, Str b) \<Rightarrow> Inr (Some (str_less a b))
                | _ \<Rightarrow>
                    (case (prim_number h px, prim_number h py) of
                       (Some m, Some n) \<Rightarrow> Inr (Some (m < n))
                     | _ \<Rightarrow> Inr None))))"

definition js_lt :: "host \<Rightarrow> jsval \<Rightarrow> jsval \<Rightarrow> error + bool" where
  "js_lt h a b = (case js_less h a b of Inl e \<Rightarrow> Inl e | Inr None \<Rightarrow> Inr False | Inr (Some r) \<Rightarrow> Inr r)"

definition js_gt :: "host \<Rightarrow> jsval \<Rightarrow> jsval \<Rightarrow> error + bool" where
  "js_gt h a b = (case js_less h b a of Inl e \<Rightarrow> Inl e | Inr None \<Rightarrow> Inr False | Inr (Some r) \<Rightarrow> Inr r)"

definition js_ge :: "host \<Rightarrow> jsval \<Rightarrow> jsval \<Rightarrow> error + bool" where
  "js_ge h a b = (case js_less h a b of Inl e \<Rightarrow> Inl e | Inr None \<Rightarrow> Inr False | Inr (Some r) \<Rightarrow> Inr (\<not> r))"

definition js_le :: "host \<Rightarrow> jsval \<Rightarrow> jsval \<Rightarrow> error + bool" where
  "js_le h a b = (case js_less h b a of Inl e \<Rightarrow> Inl e | Inr None \<Rightarrow> Inr False | Inr (Some r) \<Rightarrow> Inr (\<not> r))"

section \<open>The numeric range generator\<close>

text \<open>
  \<^verbatim>\<open>
  function createRangeArray(start, end, step = 1) {
      const result = [];
      if (step > 0) {
          for (let i = start; i <= end; i += step) result.push(i);
      } else if (step < 0) {
          for (let i = start; i >= end; i += step) result.push(i);
      }
      return result;
  }
  \<close>
  Each loop is a recursive function of the counter; the guard of the loop is the
  guard of the recursion, and the sign of the step makes the distance to the bound
  decrease.
\<close>

function range_up :: "int \<Rightarrow> int \<Rightarrow> int \<Rightarrow> int list" where
  "range_up i endv step =
     (if 0 < step \<and> i \<le> endv then i # range_up (i + step) endv step else [])"
  by pat_completeness auto
termination
  by (relation "measure (\<lambda>(i, endv, step). nat (endv + 1 - i))") auto

function range_down :: "int \<Rightarrow> int \<Rightarrow> int \<Rightarrow> int list" where
  "range_down i endv step =
     (if step < 0 \<and> endv \<le> i then i # range_down (i + step) endv step else [])"
  by pat_completeness auto
termination
  by (relation "measure (\<lambda>(i, endv, step). nat (i + 1 - endv))") auto

definition createRangeArray :: "int \<Rightarrow> int \<Rightarrow> int \<Rightarrow> int list" where
  "createRangeArray start endv step =
     (if 0 < step then range_up start endv step
      else if step < 0 then range_down start endv step
      else [])"

section \<open>Elements with a captured template\<close>

text \<open>
  A \<open>for-loop\<close>, \<open>condition-block\<close> or \<open>state-element\<close> element: its attributes,
  the field \<open>_originalTemplate\<close> (\<open>null\<close> after the constructor) and its content
  as markup, which is what an assignment to \<open>innerHTML\<close> sets.
\<close>

record element =
  attr :: "string \<Rightarrow> string option"
  originalTemplate :: "string option"
  innerHTML :: string

text \<open>
  \<^verbatim>\<open>
  _storeTemplate() {
      if (this._originalTemplate) return;
      const loopId = this.getAttribute('loopid');
      const template = this.querySelector(`template[loopid="${loopId}"]`);
      if (template) {
          this._originalTemplate = template.innerHTML;
      }
  }
  \<close>
  The three classes differ in the attribute only (\<open>loopid\<close>, \<open>ifid\<close>,
  \<open>stateId\<close>), here \<open>idattr\<close>.
\<close>

definition storeTemplate :: "host \<Rightarrow> string \<Rightarrow> element \<Rightarrow> error + element" where
  "storeTemplate h idattr el =
     (if present (originalTemplate el) then Inr el
      else (case hQueryTemplate h idattr (attr_text (attr el idattr)) (innerHTML el) of
              Inl e \<Rightarrow> Inl e
            | Inr None \<Rightarrow> Inr el
            | Inr (Some t) \<Rightarrow> Inr (el\<lparr>originalTemplate := Some t\<rparr>)))"

text \<open>The template an element renders from: \<open>_originalTemplate\<close> when it is
  truthy (\<open>if (!this._originalTemplate)\<close> is the test of every \<open>render\<close>).\<close>

definition captured :: "element \<Rightarrow> string option" where
  "captured el = (if present (originalTemplate el) then originalTemplate el else None)"

text \<open>The cross mark U+274C that starts every inline error marker (written
  \<open>(cross)\<close> where the source is quoted below), and the copy of the template
  that a render appends.\<close>

definition cross_mark :: string where
  "cross_mark = [CHR 0xE2, CHR 0x9D, CHR 0x8C]"

definition template_copy :: "string \<Rightarrow> string \<Rightarrow> string \<Rightarrow> string" where
  "template_copy idattr ident t =
     ''<template '' @ idattr @ ''=\"'' @ ident @ ''\">'' @ t @ ''</template>''"

section \<open>The loop renderer\<close>

text \<open>\<open>array[i]\<close>: \<open>undefined\<close> outside the array.\<close>

definition js_index :: "jsval list \<Rightarrow> int \<Rightarrow> jsval" where
  "js_index xs i = (if 0 \<le> i \<and> i < int (length xs) then xs ! nat i else Undefined)"

text \<open>
  The value of \<open>array\<close> in \<open>render\<close>, as the loop reads it: its elements when it
  has a \<open>length\<close>, \<open>None\<close> when \<open>array.length\<close> is \<open>undefined\<close> (a number, \<open>true\<close>,
  an object without a length). \<open>unsafeEval(arrayAttr) || []\<close> is the empty array
  for a falsy value. A string is read unit by unit, here byte by byte, which
  is the host's reading for ASCII text.
\<close>

definition array_of :: "host \<Rightarrow> jsval \<Rightarrow> jsval list option" where
  "array_of h v =
     (if truthy v
      then (case v of Ref a \<Rightarrow> hElems h a | Str s \<Rightarrow> Some (map (\<lambda>c. Str [c]) s) | _ \<Rightarrow> None)
      else Some [])"

text \<open>
  One iteration of the loop of \<open>render\<close>:
  \<^verbatim>\<open>
  const loopValue = array[i];
  const loopIndex = i;
  let iterHtml = this._originalTemplate
      .replace(new RegExp(`\\b${valueVar}\\b`, 'g'), '__loopValue__')
      .replace(new RegExp(`\\b${indexVar}\\b`, 'g'), '__loopIndex__');
  iterHtml = iterHtml.replace(pattern, (match, expr) => {
      try {
          const evalExpr = expr
              .replace(/__loopValue__/g, 'loopValue')
              .replace(/__loopIndex__/g, 'loopIndex');
          const result = unsafeEval(evalExpr, { loopValue, loopIndex });
          return result !== undefined && result !== null ? String(result) : '';
      } catch (e) {
          console.error('Loop expression error:', expr, e);
          return match;
      }
  });
  \<close>
  with \<open>pattern = /\$\{([\s\S]*?)\}/g\<close>. A pattern that does not compile throws
  out of the iteration.
\<close>

definition loop_expr ::
  "host \<Rightarrow> (string \<times> jsval) list \<Rightarrow> jsval \<Rightarrow> int \<Rightarrow> string \<Rightarrow> string \<Rightarrow> string" where
  "loop_expr h genv loopValue loopIndex match expr =
     (let evalExpr = replace_all ''__loopIndex__'' ''loopIndex''
                       (replace_all ''__loopValue__'' ''loopValue'' expr);
          result = unsafeEval h genv evalExpr [(''loopValue'', loopValue), (''loopIndex'', Num loopIndex)]
      in if result \<noteq> Undefined \<and> result \<noteq> Null
         then (case js_String h result of Inl e \<Rightarrow> match | Inr s \<Rightarrow> s)
         else [])"

definition iteration ::
  "host \<Rightarrow> (string \<times> jsval) list \<Rightarrow> string \<Rightarrow> string \<Rightarrow> string \<Rightarrow> jsval list \<Rightarrow> int \<Rightarrow> error + string" where
  "iteration h genv t valueVar indexVar array i =
     (case hReplaceWord h valueVar ''__loopValue__'' t of
        Inl e \<Rightarrow> Inl e
      | Inr t1 \<Rightarrow>
          (case hReplaceWord h indexVar ''__loopIndex__'' t1 of
             Inl e \<Rightarrow> Inl e
           | Inr t2 \<Rightarrow> Inr (replace_between ''${'' ''}'' (loop_expr h genv (js_index array i) i) t2)))"

text \<open>
  \<open>for (let i = start; i < Math.min(end, array.length); i += step) { ...; outputHtml += iterHtml; }\<close>.
  With a negative step the index never reaches the bound. The loop then ends
  with the \<open>RangeError\<close> of an output that has grown beyond the longest
  string, or with the exception of an iteration; when the iterations add
  nothing to the output it does not end. So the loop is a partial function:
  \<open>None\<close> is the render that never returns. Beside the output it keeps the
  indices it has visited.
\<close>

partial_function (option) for_loop ::
  "host \<Rightarrow> (int \<Rightarrow> error + string) \<Rightarrow> int \<Rightarrow> int \<Rightarrow> int \<Rightarrow> string \<times> int list \<Rightarrow>
   (error + string \<times> int list) option" where
  "for_loop h body i bound step acc =
     (if i < bound
      then (case body i of
              Inl e \<Rightarrow> Some (Inl e)
            | Inr iterHtml \<Rightarrow>
                (case js_append h (fst acc) iterHtml of
                   Inl e \<Rightarrow> Some (Inl e)
                 | Inr outputHtml \<Rightarrow> for_loop h body (i + step) bound step (outputHtml, snd acc @ [i])))
      else Some (Inr acc))"

declare for_loop.simps [code]

text \<open>
  The body of the \<open>try\<close> of \<open>CustomForLoop.render\<close> after the template has been
  found, up to the output and the iterations made:
  \<^verbatim>\<open>
  let array = [];
  const arrayAttr = this.getAttribute('array');
  if (arrayAttr) {
      try { array = unsafeEval(arrayAttr) || []; } catch (e) { array = []; }
  }
  const start = parseInt(this.getAttribute('start')) || 0;
  const step = parseInt(this.getAttribute('step')) || 1;
  let end = this.getAttribute('end');
  if (end !== null) {
      try { end = unsafeEval(end); } catch (e) { end = parseInt(end) || array.length; }
  } else {
      end = array.length;
  }
  const valueVar = this.getAttribute('valueVar') || 'value';
  const indexVar = this.getAttribute('indexVar') || 'index';
  if (array.length === 0 && end > start) {
      array = createRangeArray(start, end - 1, step);
  }
  \<close>
  \<open>unsafeEval\<close> does not throw, so the two \<open>catch\<close> blocks are never entered.
\<close>

definition or_default :: "string option \<Rightarrow> string \<Rightarrow> string" where
  "or_default a d = (if present a then attr_text a else d)"

definition loop_start :: "element \<Rightarrow> int" where
  "loop_start el = (case parseInt (attr_text (attr el ''start'')) of None \<Rightarrow> 0 | Some n \<Rightarrow> n)"

definition loop_step :: "element \<Rightarrow> int" where
  "loop_step el =
     (case parseInt (attr_text (attr el ''step'')) of None \<Rightarrow> 1 | Some n \<Rightarrow> if n = 0 then 1 else n)"

definition loop_array0 :: "host \<Rightarrow> (string \<times> jsval) list \<Rightarrow> element \<Rightarrow> jsval list option" where
  "loop_array0 h genv el =
     (if present (attr el ''array'')
      then array_of h (unsafeEval h genv (attr_text (attr el ''array'')) [])
      else Some [])"

definition loop_end :: "host \<Rightarrow> (string \<times> jsval) list \<Rightarrow> element \<Rightarrow> jsval" where
  "loop_end h genv el =
     (case attr el ''end'' of
        Some e \<Rightarrow> unsafeEval h genv e []
      | None \<Rightarrow> (case loop_array0 h genv el of None \<Rightarrow> Undefined | Some xs \<Rightarrow> Num (int (length xs))))"

text \<open>The array the loop runs over: the range when the array is empty and
  \<open>end > start\<close>.\<close>

definition loop_array :: "host \<Rightarrow> (string \<times> jsval) list \<Rightarrow> element \<Rightarrow> error + jsval list option" where
  "loop_array h genv el =
     (case loop_array0 h genv el of
        Some [] \<Rightarrow>
          (case to_number h (loop_end h genv el) of
             Inl e \<Rightarrow> Inl e
           | Inr None \<Rightarrow> Inr (Some [])
           | Inr (Some e) \<Rightarrow>
               if loop_start el < e
               then Inr (Some (map Num (createRangeArray (loop_start el) (e - 1) (loop_step el))))
               else Inr (Some []))
      | a \<Rightarrow> Inr a)"

text \<open>\<open>Math.min(end, array.length)\<close>; \<open>None\<close> is \<open>NaN\<close>, under which the loop
  makes no iteration.\<close>

definition loop_bound :: "host \<Rightarrow> jsval \<Rightarrow> jsval list option \<Rightarrow> error + int option" where
  "loop_bound h e array =
     (case to_number h e of
        Inl x \<Rightarrow> Inl x
      | Inr None \<Rightarrow> Inr None
      | Inr (Some n) \<Rightarrow> (case array of None \<Rightarrow> Inr None | Some xs \<Rightarrow> Inr (Some (min n (int (length xs))))))"

definition loop_run ::
  "host \<Rightarrow> (string \<times> jsval) list \<Rightarrow> element \<Rightarrow> string \<Rightarrow> (error + string \<times> int list) option" where
  "loop_run h genv el t =
     (case loop_array h genv el of
        Inl e \<Rightarrow> Some (Inl e)
      | Inr array \<Rightarrow>
          (case loop_bound h (loop_end h genv el) array of
             Inl e \<Rightarrow> Some (Inl e)
           | Inr None \<Rightarrow> Some (Inr ([], []))
           | Inr (Some bound) \<Rightarrow>
               for_loop h
                 (iteration h genv t (or_default (attr el ''valueVar'') ''value'')
                    (or_default (attr el ''indexVar'') ''index'') (case array of None \<Rightarrow> [] | Some xs \<Rightarrow> xs))
                 (loop_start el) bound (loop_step el) ([], [])))"

text \<open>The iterations of a render: the index and the value bound in each.\<close>

definition loop_iterations ::
  "host \<Rightarrow> (string \<times> jsval) list \<Rightarrow> element \<Rightarrow> string \<Rightarrow> (int \<times> jsval) list option" where
  "loop_iterations h genv el t =
     (case loop_run h genv el t of
        Some (Inr (out, visited)) \<Rightarrow>
          (case loop_array h genv el of
             Inr (Some xs) \<Rightarrow> Some (map (\<lambda>i. (i, js_index xs i)) visited)
           | _ \<Rightarrow> Some [])
      | _ \<Rightarrow> None)"

text \<open>
  \<^verbatim>\<open>
  render() {
      try {
          const loopId = this.getAttribute('loopid');
          if (!loopId) throw new Error('for-loop requires "loopid" attribute');
          this._storeTemplate();
          if (!this._originalTemplate) {
              this.innerHTML = '(cross) for-loop: Missing template with matching loopid';
              return;
          }
          ...
          const templateCopy = `<template loopid="${loopId}">${this._originalTemplate}</template>`;
          this.innerHTML = parseTemplate(outputHtml) + templateCopy;
      } catch (error) {
          console.error('for-loop error:', error);
          this.innerHTML = `(cross) for-loop Error: ${error.message}`;
      }
  }
  \<close>
  \<open>loop_output\<close> is what the \<open>try\<close> assigns to \<open>innerHTML\<close> or the exception it
  throws, for an element whose template is \<open>t\<close>.
\<close>

definition loop_output ::
  "host \<Rightarrow> (string \<times> jsval) list \<Rightarrow> element \<Rightarrow> string \<Rightarrow> (error + string) option" where
  "loop_output h genv el t =
     (case loop_run h genv el t of
        None \<Rightarrow> None
      | Some (Inl e) \<Rightarrow> Some (Inl e)
      | Some (Inr (outputHtml, visited)) \<Rightarrow>
          Some (js_append h (parseTemplate h genv outputHtml)
                  (template_copy ''loopid'' (attr_text (attr el ''loopid'')) t)))"

definition loop_failed :: "element \<Rightarrow> error \<Rightarrow> element" where
  "loop_failed el e = el\<lparr>innerHTML := cross_mark @ '' for-loop Error: '' @ message e\<rparr>"

definition loop_render :: "host \<Rightarrow> (string \<times> jsval) list \<Rightarrow> element \<Rightarrow> element option" where
  "loop_render h genv el =
     (if \<not> present (attr el ''loopid'')
      then Some (loop_failed el (Exn PlainError ''for-loop requires \"loopid\" attribute''))
      else (case storeTemplate h ''loopid'' el of
              Inl e \<Rightarrow> Some (loop_failed el e)
            | Inr el1 \<Rightarrow>
                (case captured el1 of
                   None \<Rightarrow>
                     Some (el1\<lparr>innerHTML := cross_mark @ '' for-loop: Missing template with matching loopid''\<rparr>)
                 | Some t \<Rightarrow>
                     (case loop_output h genv el1 t of
                        None \<Rightarrow> None
                      | Some (Inl e) \<Rightarrow> Some (loop_failed el1 e)
                      | Some (Inr html) \<Rightarrow> Some (el1\<lparr>innerHTML := html\<rparr>)))))"

text \<open>\<open>connectedCallback() { this.style.display = 'contents'; this._storeTemplate(); this.render(); }\<close>:
  the first capture is outside the \<open>try\<close> of \<open>render\<close>.\<close>

definition loop_connected :: "host \<Rightarrow> (string \<times> jsval) list \<Rightarrow> element \<Rightarrow> (error + element) option" where
  "loop_connected h genv el =
     (case storeTemplate h ''loopid'' el of
        Inl e \<Rightarrow> Some (Inl e)
      | Inr el1 \<Rightarrow> map_option Inr (loop_render h genv el1))"

text \<open>
  A condition under which the loop of \<open>render\<close> ends, for an element whose
  template is \<open>t\<close>. Either the step is positive and the start is not below
  \<open>-2^53\<close>: the index is then a number that every step moves, so it reaches the
  bound. Or every iteration adds to the output or throws, whatever the array
  and the index: the output then reaches the longest string.
\<close>

definition loop_ends :: "host \<Rightarrow> (string \<times> jsval) list \<Rightarrow> element \<Rightarrow> string \<Rightarrow> bool" where
  "loop_ends h genv el t =
     ((0 < loop_step el \<and> - 9007199254740992 \<le> loop_start el) \<or>
      (\<forall>array i. iteration h genv t (or_default (attr el ''valueVar'') ''value'')
                    (or_default (attr el ''indexVar'') ''index'') array i \<noteq> Inr []))"

section \<open>The conditional block\<close>

text \<open>
  \<^verbatim>\<open>
  _evaluateCondition(ifEl) {
      try {
          const valueAttr = ifEl.getAttribute('value');
          const eqAttr = ifEl.getAttribute('eq');
          ... neq, gt, lt, gte, lte
          const value = unsafeEval(valueAttr);
          if (eqAttr !== null) {
              const compare = unsafeEval(eqAttr);
              return value === compare;
          }
          if (neqAttr !== null) { ... return value !== compare; }
          if (gtAttr !== null) { ... return value > compare; }
          if (ltAttr !== null) { ... return value < compare; }
          if (gteAttr !== null) { ... return value >= compare; }
          if (lteAttr !== null) { ... return value <= compare; }
          return Boolean(value);
      } catch (error) {
          console.error('Condition evaluation error:', error);
          return false;
      }
  }
  \<close>
  An \<open>if-condition\<close> element is given by its attributes. Inside the \<open>try\<close> only
  the conversion of an object in a relational comparison can throw.
\<close>

definition caught :: "error + bool \<Rightarrow> bool" where
  "caught r = (case r of Inl e \<Rightarrow> False | Inr b \<Rightarrow> b)"

definition evaluateCondition ::
  "host \<Rightarrow> (string \<times> jsval) list \<Rightarrow> (string \<Rightarrow> string option) \<Rightarrow> bool" where
  "evaluateCondition h genv ifEl =
     (let v = unsafeEval h genv (attr_text (ifEl ''value'')) [] in
      case ifEl ''eq'' of
        Some e \<Rightarrow> strict_eq v (unsafeEval h genv e [])
      | None \<Rightarrow>
      (case ifEl ''neq'' of
        Some e \<Rightarrow> \<not> strict_eq v (unsafeEval h genv e [])
      | None \<Rightarrow>
      (case ifEl ''gt'' of
        Some e \<Rightarrow> caught (js_gt h v (unsafeEval h genv e []))
      | None \<Rightarrow>
      (case ifEl ''lt'' of
        Some e \<Rightarrow> caught (js_lt h v (unsafeEval h genv e []))
      | None \<Rightarrow>
      (case ifEl ''gte'' of
        Some e \<Rightarrow> caught (js_ge h v (unsafeEval h genv e []))
      | None \<Rightarrow>
      (case ifEl ''lte'' of
        Some e \<Rightarrow> caught (js_le h v (unsafeEval h genv e []))
      | None \<Rightarrow> truthy v))))))"

text \<open>The operand the chain of tests honours: the first one present, in the
  order \<open>eq\<close>, \<open>neq\<close>, \<open>gt\<close>, \<open>lt\<close>, \<open>gte\<close>, \<open>lte\<close>.\<close>

definition operand :: "(string \<Rightarrow> string option) \<Rightarrow> string option" where
  "operand ifEl =
     (case ifEl ''eq'' of Some e \<Rightarrow> Some e | None \<Rightarrow>
     (case ifEl ''neq'' of Some e \<Rightarrow> Some e | None \<Rightarrow>
     (case ifEl ''gt'' of Some e \<Rightarrow> Some e | None \<Rightarrow>
     (case ifEl ''lt'' of Some e \<Rightarrow> Some e | None \<Rightarrow>
     (case ifEl ''gte'' of Some e \<Rightarrow> Some e | None \<Rightarrow> ifEl ''lte'')))))"

text \<open>
  \<^verbatim>\<open>
  _processSingleIfElse(container, ifEl) {
      const elseid = ifEl.getAttribute('elseid') || '';
      const valueAttr = ifEl.getAttribute('value');
      if (!valueAttr) {
          console.error('if-condition requires "value" attribute');
          ifEl.remove();
          return;
      }
      const conditionResult = this._evaluateCondition(ifEl);
      let elseEl = null;
      if (elseid) { ... the else-condition with this elseid, a sibling first ... }
      if (conditionResult) {
          if (elseEl) elseEl.remove();
          ... ifEl is replaced by its children ...
      } else {
          ifEl.remove();
          if (elseEl) { ... elseEl is replaced by its children ... }
      }
  }
  \<close>
  What the function does to the two elements, the \<open>if-condition\<close> first and
  the \<open>else-condition\<close> it has found second: an element is replaced by its
  children, removed with them, or left where it is. The second component says
  nothing when no \<open>else-condition\<close> was found.
\<close>

datatype fate = Unwrapped | Removed | Untouched

definition processSingleIfElse ::
  "host \<Rightarrow> (string \<times> jsval) list \<Rightarrow> (string \<Rightarrow> string option) \<Rightarrow> fate \<times> fate" where
  "processSingleIfElse h genv ifEl =
     (if \<not> present (ifEl ''value'') then (Removed, Untouched)
      else if evaluateCondition h genv ifEl then (Unwrapped, Removed)
      else (Removed, Unwrapped))"

text \<open>
  \<^verbatim>\<open>
  render() {
      try {
          const ifid = this.getAttribute('ifid');
          if (!ifid) throw new Error('condition-block requires "ifid" attribute');
          this._storeTemplate();
          if (!this._originalTemplate) {
              this.innerHTML = '(cross) condition-block requires template with matching ifid';
              return;
          }
          let html = parseTemplate(this._originalTemplate);
          html = this._processConditionsRecursive(html);
          const templateCopy = `<template ifid="${ifid}">${this._originalTemplate}</template>`;
          this.innerHTML = html + templateCopy;
      } catch (error) {
          console.error('condition-block error:', error);
          this.innerHTML = `(cross) condition-block Error: ${error.message}`;
      }
  }
  \<close>
  \<open>_processConditionsRecursive\<close> parses its argument into a detached container,
  rewrites the \<open>if-condition\<close> and \<open>else-condition\<close> elements of that container
  and returns the container's markup. It reads nothing of the element but its
  argument; it is the parameter \<open>resolve\<close> here, a function from markup to
  markup that may throw.
\<close>

definition condition_failed :: "element \<Rightarrow> error \<Rightarrow> element" where
  "condition_failed el e = el\<lparr>innerHTML := cross_mark @ '' condition-block Error: '' @ message e\<rparr>"

text \<open>\<open>condition_output\<close> is what the \<open>try\<close> assigns to \<open>innerHTML\<close> or the
  exception it throws, for an element whose template is \<open>t\<close>.\<close>

definition condition_output ::
  "host \<Rightarrow> (string \<times> jsval) list \<Rightarrow> (string \<Rightarrow> error + string) \<Rightarrow> element \<Rightarrow> string \<Rightarrow> error + string" where
  "condition_output h genv resolve el t =
     (case resolve (parseTemplate h genv t) of
        Inl e \<Rightarrow> Inl e
      | Inr html \<Rightarrow> js_append h html (template_copy ''ifid'' (attr_text (attr el ''ifid'')) t))"



section \<open>The re-render dispatcher\<close>

text \<open>
  \<open>setState\<close> works on the document. What it does is modelled by the list of
  refreshes it performs, in order: which category of markup it touches, and
  for a scoped refresh, which identifier. The options are those of the
  destructured parameter, with its defaults; an identifier option is \<open>None\<close>
  for \<open>false\<close>. \<open>fails\<close> says which refresh throws (a selector that does not
  parse, a \<open>state-element\<close> whose \<open>render\<close> throws); the \<open>catch\<close> of \<open>setState\<close>
  then hides the loader and drops what was left to do.
\<close>

datatype refresh =
    LoaderShow
  | LoaderHide
  | LoopById string
  | ConditionById string
  | StateById string
  | DataJs
  | DataInnerHtml
  | AllLoops
  | DataLoops
  | Templates
  | AllConditions
  | AllStates

record options =
  loopid :: "string option"
  stateId :: "string option"
  ifid :: "string option"
  states :: bool
  showloader :: bool
  datajs :: bool
  innerhtml :: bool
  loops :: bool
  dataloops :: bool
  templates :: bool
  conditions :: bool

definition defaults :: options where
  "defaults =
     \<lparr> loopid = None, stateId = None, ifid = None, states = False, showloader = True,
       datajs = True, innerhtml = True, loops = True, dataloops = True, templates = False,
       conditions = True \<rparr>"

text \<open>A sequence of steps inside the \<open>try\<close>: each is started unless an earlier
  one threw. The result is the refreshes started, the one that threw being
  the last, and whether one threw.\<close>

fun attempt :: "(refresh \<Rightarrow> bool) \<Rightarrow> refresh list \<Rightarrow> refresh list \<times> bool" where
  "attempt fails [] = ([], False)"
| "attempt fails (r # rs) =
     (if fails r then ([r], True)
      else (case attempt fails rs of (did, threw) \<Rightarrow> (r # did, threw)))"

definition only_if :: "bool \<Rightarrow> refresh \<Rightarrow> refresh list" where
  "only_if b r = (if b then [r] else [])"

text \<open>The bulk part, common to both versions: lines 1389-1434 (385-430 in the
  older file).\<close>

definition bulk :: "options \<Rightarrow> refresh list" where
  "bulk opts =
     only_if (datajs opts) DataJs @ only_if (innerhtml opts) DataInnerHtml @ only_if (loops opts) AllLoops @
     only_if (dataloops opts) DataLoops @ only_if (templates opts) Templates @
     only_if (conditions opts) AllConditions @ only_if (states opts) AllStates"

text \<open>
  The current \<open>setState\<close> (lines 1359-1442): the three scoped refreshes are
  followed by the bulk part.
  \<^verbatim>\<open>
  try {
      if (showloader) loader.show();
      if (loopid) { document.querySelectorAll(`for-loop[loopid="${loopid}"]`).forEach(...); }
      if (ifid) { document.querySelectorAll(`condition-block[ifid="${ifid}"]`).forEach(...); }
      if (stateId) { document.querySelectorAll(`state-element[stateId="${stateId}"]`).forEach(...); }
      if (datajs) { ... }
      ...
      if (showloader) loader.hide();
  } catch (error) {
      if (showloader) loader.hide();
      console.error('setState error:', error);
  }
  \<close>
\<close>

definition plan :: "options \<Rightarrow> refresh list" where
  "plan opts =
     only_if (showloader opts) LoaderShow @
     only_if (present (loopid opts)) (LoopById (attr_text (loopid opts))) @
     only_if (present (ifid opts)) (ConditionById (attr_text (ifid opts))) @
     only_if (present (stateId opts)) (StateById (attr_text (stateId opts))) @
     bulk opts @
     only_if (showloader opts) LoaderHide"

definition finish :: "options \<Rightarrow> refresh list \<times> bool \<Rightarrow> refresh list" where
  "finish opts r = (case r of (did, threw) \<Rightarrow> if threw then did @ only_if (showloader opts) LoaderHide else did)"

definition setState :: "(refresh \<Rightarrow> bool) \<Rightarrow> options \<Rightarrow> refresh list" where
  "setState fails opts = finish opts (attempt fails (plan opts))"

text \<open>
  The older \<open>setState\<close> (lines 351-438): each scoped refresh hides the loader
  and returns.
  \<^verbatim>\<open>
  if (loopid) {
      document.querySelectorAll(`for-loop[loopid="${loopid}"]`).forEach(...);
      if (showloader) loader.hide();
      return;
  }
  if (ifid) { ...; if (showloader) loader.hide(); return; }
  if (stateId) { ...; if (showloader) loader.hide(); return; }
  \<close>
\<close>

definition plan_older :: "options \<Rightarrow> refresh list" where
  "plan_older opts =
     only_if (showloader opts) LoaderShow @
     (if present (loopid opts) then [LoopById (attr_text (loopid opts))]
      else if present (ifid opts) then [ConditionById (attr_text (ifid opts))]
      else if present (stateId opts) then [StateById (attr_text (stateId opts))]
      else bulk opts) @
     only_if (showloader opts) LoaderHide"

definition setState_older :: "(refresh \<Rightarrow> bool) \<Rightarrow> options \<Rightarrow> refresh list" where
  "setState_older fails opts = finish opts (attempt fails (plan_older opts))"

section \<open>Change tracking: objects, wrappers and the schedule\<close>

text \<open>
  The state of the reactive part: the objects of the page, the module variables
  \<open>scheduledCallbacks\<close>, \<open>proxyCache\<close>, \<open>activeWatcher\<close> and \<open>watchedVars\<close>, the
  accessors that \<open>watch\<close> has put on \<open>window\<close>, and the queue of microtasks.

  The heap is the list of objects in the order of their creation; an address is
  an index into it. An object is a plain one (whether it is an array, whether
  it is extensible, and its own properties in the order of their creation) or
  a proxy made by \<open>new Proxy(target, handler)\<close> in \<open>createDeepProxy\<close>, known by
  its target and its callback.

  A property is a data property (its value, whether it is writable and
  whether it is configurable) or an accessor property (its getter and whether
  it is configurable). \<open>Object.freeze\<close> leaves an object that is not extensible
  and whose data properties are neither writable nor configurable. A getter is
  code of the page: \<open>Returns v\<close> is a getter that returns a value it holds,
  \<open>Creates literal\<close> one that returns a new object on every call, as
  \<open>get pos() { return { x: 1 } }\<close> does. Setters, prototypes and symbols as keys
  are not modelled: a read gives an own property or \<open>undefined\<close>, and an
  accessor property has no setter.

  A function made by \<open>watch\<close> as \<open>trigger\<close> is known by its number. With it go the
  name it was made for (\<open>__watchedProp\<close>), the callback of the page, and the
  variable \<open>_value\<close> that the trigger and the accessor close over. What the
  callback of the page does to the tracked state is a list of statements.
\<close>

type_synonym fnid = nat

datatype getter = Returns jsval | Creates "(string \<times> jsval) list"

datatype slot = Data jsval bool bool | Accessor getter bool

datatype hobj = Plain bool bool "(string \<times> slot) list" | Proxy addr fnid

text \<open>The property an assignment or an object literal creates, and whether a
  property is configurable.\<close>

definition field :: "jsval \<Rightarrow> slot" where
  "field v = Data v True True"

fun configurable :: "slot \<Rightarrow> bool" where
  "configurable (Data v w c) = c"
| "configurable (Accessor g c) = c"

text \<open>A statement of the page's code, as far as the tracked state goes: a write
  \<open>o[k] = v\<close> and a \<open>delete o[k]\<close> on the object at an address (a wrapper or a
  plain object), an assignment \<open>name = v\<close> to a global, and a \<open>throw\<close>.\<close>

datatype stmt =
    Write addr string jsval
  | Remove addr string
  | Reassign string jsval
  | Throw string

record trigger =
  watchedProp :: string
  userCallback :: "stmt list"
  stored :: jsval

text \<open>\<open>calls\<close> records every call of a page callback: the trigger, the two
  arguments \<open>propName\<close> and \<open>_value\<close>, and the objects as they are at the call.\<close>

record tracker =
  heap :: "hobj list"
  proxyCache :: "addr \<Rightarrow> (fnid \<Rightarrow> addr option) option"
  scheduledCallbacks :: "fnid set"
  microtasks :: "fnid list"
  activeWatcher :: "fnid option"
  watchedVars :: "string list"
  window :: "string \<Rightarrow> fnid option"
  triggers :: "trigger list"
  calls :: "(fnid \<times> string \<times> jsval \<times> hobj list) list"

text \<open>
  \<^verbatim>\<open>
  function scheduleCallback(cb) {
      if (scheduledCallbacks.has(cb)) return; // Already scheduled for this tick
      scheduledCallbacks.add(cb);
      queueMicrotask(() => {
          scheduledCallbacks.delete(cb);
          activeWatcher = cb;
          try { cb(); } finally { activeWatcher = null; }
      });
  }
  \<close>
  The queued closure is determined by \<open>cb\<close>; the queue holds \<open>cb\<close> for it, and
  \<open>run_job\<close> below is its body.
\<close>

definition scheduleCallback :: "tracker \<Rightarrow> fnid \<Rightarrow> tracker" where
  "scheduleCallback st cb =
     (if cb \<in> scheduledCallbacks st then st
      else st\<lparr>scheduledCallbacks := insert cb (scheduledCallbacks st),
              microtasks := microtasks st @ [cb]\<rparr>)"

text \<open>
  \<^verbatim>\<open>
  function createDeepProxy(target, callback) {
      if (typeof target !== 'object' || target === null) { return target; }
      if (typeof callback !== 'function') { throw new TypeError(...); }
      let callbackMap = proxyCache.get(target);
      if (callbackMap && callbackMap.has(callback)) { return callbackMap.get(callback); }
      const proxy = new Proxy(target, { get ..., set ..., deleteProperty ... });
      if (!callbackMap) { callbackMap = new WeakMap(); proxyCache.set(target, callbackMap); }
      callbackMap.set(callback, proxy);
      return proxy;
  }
  \<close>
  The new proxy is the next object of the heap. The weak maps keep their
  entries as long as the keys are alive, and nothing of the model dies. A
  callback is a function, known by its number, or another value, known by its
  \<open>typeof\<close>, which the message of the \<open>TypeError\<close> names.
\<close>

datatype callback = Function fnid | NotAFunction string

definition not_a_function :: "string \<Rightarrow> error" where
  "not_a_function ty =
     Exn TypeError
       (''HTTL-S watch(): Second parameter must be a function, got '' @ ty @ ''. '' @
        ''Did you accidentally call the function? Use like '' @
        ''\"watch('varName', ()=>setState())\" not \"watch('varName', setState())\"'')"

definition createDeepProxy :: "tracker \<Rightarrow> jsval \<Rightarrow> callback \<Rightarrow> error + jsval \<times> tracker" where
  "createDeepProxy st target callback =
     (case target of
        Ref a \<Rightarrow>
          (case callback of
             NotAFunction ty \<Rightarrow> Inl (not_a_function ty)
           | Function cb \<Rightarrow>
               (case (case proxyCache st a of None \<Rightarrow> None | Some callbackMap \<Rightarrow> callbackMap cb) of
                  Some p \<Rightarrow> Inr (Ref p, st)
                | None \<Rightarrow>
                    (let p = length (heap st);
                         callbackMap = (case proxyCache st a of None \<Rightarrow> Map.empty | Some m \<Rightarrow> m)
                     in Inr (Ref p,
                             st\<lparr>heap := heap st @ [Proxy a cb],
                                proxyCache := (proxyCache st)(a \<mapsto> callbackMap(cb \<mapsto> p))\<rparr>))))
      | v \<Rightarrow> Inr (target, st))"

text \<open>
  \<open>Reflect.get\<close> on a plain object: the value of a data property, what the
  getter of an accessor property returns, \<open>undefined\<close> when there is no own
  property. The object a getter creates is the next object of the heap.
\<close>

definition ordinary_get :: "tracker \<Rightarrow> (string \<times> slot) list \<Rightarrow> string \<Rightarrow> jsval \<times> tracker" where
  "ordinary_get st props k =
     (case map_of props k of
        None \<Rightarrow> (Undefined, st)
      | Some (Data v w c) \<Rightarrow> (v, st)
      | Some (Accessor (Returns v) c) \<Rightarrow> (v, st)
      | Some (Accessor (Creates literal) c) \<Rightarrow>
          (Ref (length (heap st)),
           st\<lparr>heap := heap st @ [Plain False True (map (\<lambda>(j, v). (j, field v)) literal)]\<rparr>))"

definition dangling :: error where
  "dangling = Exn TypeError ''not an object of the heap''"

text \<open>The own property of an object, as \<open>[[GetOwnProperty]]\<close> gives it: a proxy
  without a \<open>getOwnPropertyDescriptor\<close> trap hands the question to its target.\<close>

function own_property :: "tracker \<Rightarrow> addr \<Rightarrow> string \<Rightarrow> slot option" where
  "own_property st a k =
     (if a < length (heap st)
      then (case heap st ! a of
              Plain arr ext props \<Rightarrow> map_of props k
            | Proxy obj callback \<Rightarrow> if obj < a then own_property st obj k else None)
      else None)"
  by pat_completeness auto
termination
  by (relation "measure (\<lambda>(st, a, k). a)") auto

declare own_property.simps [simp del]

text \<open>
  The engine checks what a \<open>get\<close> trap returns against the target: for a data
  property of the target that is neither writable nor configurable, the trap
  must return the value of the property, or the read throws a \<open>TypeError\<close>.
  The wording of the message is the engine's; the library does not read it.
\<close>

definition fixed :: "slot option \<Rightarrow> bool" where
  "fixed s = (case s of Some (Data v w c) \<Rightarrow> \<not> w \<and> \<not> c | _ \<Rightarrow> False)"

definition not_actual_value :: "string \<Rightarrow> error" where
  "not_actual_value k =
     Exn TypeError
       ([CHR 0x27] @ ''get'' @ [CHR 0x27] @ '' on proxy: property '' @ [CHR 0x27] @ k @ [CHR 0x27] @
        '' is a read-only and non-configurable data property on the proxy target '' @
        ''but the proxy did not return its actual value'')"

text \<open>
  Reading a property of the object at an address, \<open>o[k]\<close>. On a proxy this is
  the \<open>get\<close> trap:
  \<^verbatim>\<open>
  get(obj, prop, receiver) {
      const value = Reflect.get(obj, prop, receiver);
      if (typeof value === 'object' && value !== null) {
          return createDeepProxy(value, callback);
      }
      return value;
  }
  \<close>
  followed by the check of the engine. The trap returns a wrapper for an
  object, which is never the object itself, so the check fails whenever the
  property is fixed and holds an object; the wrapper has been made and cached
  by then. A read gives its result or the exception, and the state it leaves.

  A proxy is created after its target, so the target's address is the smaller
  one and the recursion through a chain of proxies ends; an address outside
  the heap, or a proxy whose target is not older, is not a state of the
  program and reads as the error \<open>dangling\<close>.
\<close>

function get_prop :: "tracker \<Rightarrow> addr \<Rightarrow> string \<Rightarrow> (error + jsval) \<times> tracker" where
  "get_prop st a k =
     (if a < length (heap st)
      then (case heap st ! a of
              Plain arr ext props \<Rightarrow> (case ordinary_get st props k of (v, st1) \<Rightarrow> (Inr v, st1))
            | Proxy obj callback \<Rightarrow>
                if obj < a
                then (case get_prop st obj k of
                        (Inl e, st1) \<Rightarrow> (Inl e, st1)
                      | (Inr v, st1) \<Rightarrow>
                          if is_object v
                          then (case createDeepProxy st1 v (Function callback) of
                                  Inl e \<Rightarrow> (Inl e, st1)
                                | Inr (p, st2) \<Rightarrow>
                                    if fixed (own_property st2 obj k) then (Inl (not_actual_value k), st2)
                                    else (Inr p, st2))
                          else (Inr v, st1))
                else (Inl dangling, st))
      else (Inl dangling, st))"
  by pat_completeness auto
termination
  by (relation "measure (\<lambda>(st, a, k). a)") auto

declare get_prop.simps [simp del]

text \<open>\<open>Array.isArray(o)\<close>, which looks through proxies.\<close>

function is_array :: "tracker \<Rightarrow> addr \<Rightarrow> bool" where
  "is_array st a =
     (if a < length (heap st)
      then (case heap st ! a of
              Plain arr ext props \<Rightarrow> arr
            | Proxy obj callback \<Rightarrow> if obj < a then is_array st obj else False)
      else False)"
  by pat_completeness auto
termination
  by (relation "measure (\<lambda>(st, a). a)") auto

declare is_array.simps [simp del]

text \<open>
  Writing and deleting an own property of a plain object
  (\<open>Reflect.set\<close>, \<open>Reflect.deleteProperty\<close>). A write changes the value of a
  writable data property and creates a property on an extensible object; it
  changes nothing on a data property that is not writable, on an accessor
  property (there is no setter) and for a new property of an object that is
  not extensible. A delete removes a configurable property and changes
  nothing on another one. Where nothing changes \<open>Reflect\<close> returns \<open>false\<close>
  and does not throw.

  The \<open>length\<close> of an array is a data property that is not configurable. An
  array keeps its \<open>length\<close> above its indices (a new index at or above a
  \<open>length\<close> that is not writable is not created), throws a \<open>RangeError\<close> for a
  new \<open>length\<close> that is not an array length, and drops its elements from the
  last one down to the new \<open>length\<close>, stopping above an element that is not
  configurable. A new \<open>length\<close> is taken to be a number: the conversion of
  another value to a number is not modelled, and such a value counts as no
  array length.
\<close>

fun put :: "string \<Rightarrow> 'a \<Rightarrow> (string \<times> 'a) list \<Rightarrow> (string \<times> 'a) list" where
  "put k v [] = [(k, v)]"
| "put k v (p # ps) = (if fst p = k then (k, v) # ps else p # put k v ps)"

definition index_of :: "string \<Rightarrow> nat option" where
  "index_of k =
     (if k \<noteq> [] \<and> list_all (is_digit 10) k \<and> (k = ''0'' \<or> hd k \<noteq> CHR ''0'')
      then (case parseInt k of
              Some n \<Rightarrow> if n < 4294967295 then Some (nat n) else None
            | None \<Rightarrow> None)
      else None)"

definition array_length :: "(string \<times> slot) list \<Rightarrow> nat" where
  "array_length props = (case map_of props ''length'' of Some (Data (Num n) w c) \<Rightarrow> nat n | _ \<Rightarrow> 0)"

definition length_fixed :: "(string \<times> slot) list \<Rightarrow> bool" where
  "length_fixed props = (case map_of props ''length'' of Some (Data v w c) \<Rightarrow> \<not> w | _ \<Rightarrow> False)"

text \<open>The greatest index at or above \<open>n\<close> of an element that is not
  configurable, if there is one.\<close>

definition stuck :: "(string \<times> slot) list \<Rightarrow> int \<Rightarrow> nat option" where
  "stuck props n =
     (case filter (\<lambda>i. n \<le> int i)
             (concat (map (\<lambda>(j, s). case index_of j of
                                        Some i \<Rightarrow> if configurable s then [] else [i]
                                      | None \<Rightarrow> []) props)) of
        [] \<Rightarrow> None
      | i # rest \<Rightarrow> Some (fold max rest i))"

definition set_length :: "(string \<times> slot) list \<Rightarrow> jsval \<Rightarrow> error + (string \<times> slot) list" where
  "set_length props v =
     (case v of
        Num n \<Rightarrow>
          if 0 \<le> n \<and> n < 4294967296
          then (let newLen = (case stuck props n of None \<Rightarrow> n | Some i \<Rightarrow> int i + 1)
                in Inr (put ''length'' (Data (Num newLen) True False)
                         (filter (\<lambda>(j, s). case index_of j of None \<Rightarrow> True | Some i \<Rightarrow> int i < newLen) props)))
          else Inl (Exn RangeError ''Invalid array length'')
      | _ \<Rightarrow> Inl (Exn RangeError ''Invalid array length''))"

definition ordinary_set ::
  "bool \<Rightarrow> bool \<Rightarrow> (string \<times> slot) list \<Rightarrow> string \<Rightarrow> jsval \<Rightarrow> error + (string \<times> slot) list" where
  "ordinary_set arr ext props k v =
     (case map_of props k of
        Some (Accessor g c) \<Rightarrow> Inr props
      | Some (Data old w c) \<Rightarrow>
          if \<not> w then Inr props
          else if arr \<and> k = ''length'' then set_length props v
          else Inr (put k (Data v True c) props)
      | None \<Rightarrow>
          if \<not> ext then Inr props
          else (case (if arr then index_of k else None) of
                  Some i \<Rightarrow>
                    if array_length props \<le> i
                    then (if length_fixed props then Inr props
                          else Inr (put ''length'' (Data (Num (int i + 1)) True False) (put k (field v) props)))
                    else Inr (put k (field v) props)
                | None \<Rightarrow> Inr (put k (field v) props)))"

definition ordinary_delete :: "(string \<times> slot) list \<Rightarrow> string \<Rightarrow> (string \<times> slot) list" where
  "ordinary_delete props k =
     (case map_of props k of
        Some s \<Rightarrow> if configurable s then filter (\<lambda>(j, s). j \<noteq> k) props else props
      | None \<Rightarrow> props)"

text \<open>The error of the self-mutation guard:
  \<^verbatim>\<open>
  throw new Error(
      `HTTL-S Error: Watcher for "${callback.__watchedProp}" mutated its own state.\n` +
      `This causes infinite loops. Move mutations outside the watcher callback.`
  );
  \<close>\<close>

definition self_mutation :: "tracker \<Rightarrow> fnid \<Rightarrow> error" where
  "self_mutation st cb =
     Exn PlainError
       (''HTTL-S Error: Watcher for \"'' @
        (if cb < length (triggers st) then watchedProp (triggers st ! cb) else ''undefined'') @
        ''\" mutated its own state.'' @ [CHR 0x0A] @
        ''This causes infinite loops. Move mutations outside the watcher callback.'')"

text \<open>
  Writing a property of the object at an address, \<open>o[k] = v\<close>. On a proxy this
  is the \<open>set\<close> trap:
  \<^verbatim>\<open>
  set(obj, prop, value, receiver) {
      if (activeWatcher === callback) { throw new Error(...); }
      // Ignore array 'length' changes - they're noise from push/pop/etc
      if (Array.isArray(obj) && prop === 'length') {
          return Reflect.set(obj, prop, value, receiver);
      }
      const result = Reflect.set(obj, prop, value, receiver);
      scheduleCallback(callback); // Batched callback - fires ONCE per tick
      return result;
  }
  \<close>
  \<open>Reflect.set\<close> on a target that is itself a proxy runs that proxy's trap.
  The callback is scheduled whether or not the write has changed anything.
  The statements of the page are those of a classic script, not in strict
  mode: a write or a delete for which the trap returns \<open>false\<close> is dropped
  without an exception.
\<close>

function set_prop :: "tracker \<Rightarrow> addr \<Rightarrow> string \<Rightarrow> jsval \<Rightarrow> error + tracker" where
  "set_prop st a k v =
     (if a < length (heap st)
      then (case heap st ! a of
              Plain arr ext props \<Rightarrow>
                (case ordinary_set arr ext props k v of
                   Inl e \<Rightarrow> Inl e
                 | Inr props' \<Rightarrow> Inr (st\<lparr>heap := (heap st)[a := Plain arr ext props']\<rparr>))
            | Proxy obj callback \<Rightarrow>
                if activeWatcher st = Some callback then Inl (self_mutation st callback)
                else if obj < a
                then (case set_prop st obj k v of
                        Inl e \<Rightarrow> Inl e
                      | Inr st1 \<Rightarrow>
                          if is_array st obj \<and> k = ''length'' then Inr st1
                          else Inr (scheduleCallback st1 callback))
                else Inl dangling)
      else Inl dangling)"
  by pat_completeness auto
termination
  by (relation "measure (\<lambda>(st, a, k, v). a)") auto

declare set_prop.simps [simp del]

text \<open>
  \<open>delete o[k]\<close>; on a proxy the \<open>deleteProperty\<close> trap:
  \<^verbatim>\<open>
  deleteProperty(obj, prop) {
      if (activeWatcher === callback) { throw new Error(...); }
      const result = Reflect.deleteProperty(obj, prop);
      scheduleCallback(callback); // Batched callback
      return result;
  }
  \<close>
\<close>

function delete_prop :: "tracker \<Rightarrow> addr \<Rightarrow> string \<Rightarrow> error + tracker" where
  "delete_prop st a k =
     (if a < length (heap st)
      then (case heap st ! a of
              Plain arr ext props \<Rightarrow> Inr (st\<lparr>heap := (heap st)[a := Plain arr ext (ordinary_delete props k)]\<rparr>)
            | Proxy obj callback \<Rightarrow>
                if activeWatcher st = Some callback then Inl (self_mutation st callback)
                else if obj < a
                then (case delete_prop st obj k of
                        Inl e \<Rightarrow> Inl e
                      | Inr st1 \<Rightarrow> Inr (scheduleCallback st1 callback))
                else Inl dangling)
      else Inl dangling)"
  by pat_completeness auto
termination
  by (relation "measure (\<lambda>(st, a, k). a)") auto

declare delete_prop.simps [simp del]

text \<open>
  The accessor that \<open>watch\<close> defines on \<open>window\<close>; \<open>store\<close> assigns \<open>_value\<close>.
  \<^verbatim>\<open>
  get() { return _value; },
  set(value) {
      if (activeWatcher === trigger) { throw new Error(...); }
      if (typeof value === 'object' && value !== null) {
          _value = createDeepProxy(value, trigger);
      } else {
          _value = value;
      }
      scheduleCallback(trigger); // Use scheduled trigger, not direct call
  }
  \<close>
  A global that is not watched is not part of the state: assigning to it
  changes nothing here.
\<close>

definition store :: "tracker \<Rightarrow> fnid \<Rightarrow> jsval \<Rightarrow> tracker" where
  "store st t v = st\<lparr>triggers := (triggers st)[t := (triggers st ! t)\<lparr>stored := v\<rparr>]\<rparr>"

definition assign :: "tracker \<Rightarrow> string \<Rightarrow> jsval \<Rightarrow> error + tracker" where
  "assign st name v =
     (case window st name of
        None \<Rightarrow> Inr st
      | Some trigger \<Rightarrow>
          if activeWatcher st = Some trigger then Inl (self_mutation st trigger)
          else if is_object v
          then (case createDeepProxy st v (Function trigger) of
                  Inl e \<Rightarrow> Inl e
                | Inr (p, st1) \<Rightarrow> Inr (scheduleCallback (store st1 trigger p) trigger))
          else Inr (scheduleCallback (store st trigger v) trigger))"

text \<open>A run of statements stops at the first exception, with the state as the
  statements before it have left it. A statement that throws has changed
  nothing: every guard is passed before the first write.\<close>

fun exec :: "tracker \<Rightarrow> stmt \<Rightarrow> error + tracker" where
  "exec st (Write a k v) = set_prop st a k v"
| "exec st (Remove a k) = delete_prop st a k"
| "exec st (Reassign name v) = assign st name v"
| "exec st (Throw m) = Inl (Exn PlainError m)"

fun run :: "tracker \<Rightarrow> stmt list \<Rightarrow> tracker \<times> error option" where
  "run st [] = (st, None)"
| "run st (s # ss) = (case exec st s of Inl e \<Rightarrow> (st, Some e) | Inr st1 \<Rightarrow> run st1 ss)"

text \<open>
  The trigger, \<open>const trigger = () => cb(propName, _value)\<close>, and the body of
  the queued microtask. \<open>run_job\<close> gives the state after the job and the
  exception the callback has thrown, if any.
\<close>

definition invoke :: "tracker \<Rightarrow> fnid \<Rightarrow> tracker \<times> error option" where
  "invoke st cb =
     (if cb < length (triggers st)
      then (let t = triggers st ! cb
            in run (st\<lparr>calls := calls st @ [(cb, watchedProp t, stored t, heap st)]\<rparr>) (userCallback t))
      else (st, None))"

definition run_job :: "tracker \<Rightarrow> fnid \<Rightarrow> tracker \<times> error option" where
  "run_job st cb =
     (case invoke (st\<lparr>scheduledCallbacks := scheduledCallbacks st - {cb}, activeWatcher := Some cb\<rparr>) cb of
        (st1, thrown) \<Rightarrow> (st1\<lparr>activeWatcher := None\<rparr>, thrown))"



text \<open>
  \<^verbatim>\<open>
  function watch(propName, cb, defaultValue = undefined) {
      if (typeof cb !== 'function') { throw new TypeError(...); }
      if (propName in window) { console.warn(`HTTL-S: "${propName}" already exists on window`); }
      let _value;
      const trigger = () => cb(propName, _value);
      trigger.__watchedProp = propName;
      if (typeof defaultValue === 'object' && defaultValue !== null) {
          _value = createDeepProxy(defaultValue, trigger);
      } else {
          _value = defaultValue;
      }
      Object.defineProperty(window, propName, { get ..., set ..., configurable: true, enumerable: true });
      watchedVars.add(propName);
  }
  \<close>
  \<open>window\<close> holds the accessors of \<open>watch\<close> only; the console is not modelled.
  \<open>watchedVars\<close> is a \<open>Set\<close>: a name is added once, in the order of insertion.
  The callback argument is a function, given by what it does, or another
  value, given by its \<open>typeof\<close>.
\<close>

datatype usercb = NotCallable string | Callable "stmt list"

definition watch :: "tracker \<Rightarrow> string \<Rightarrow> usercb \<Rightarrow> jsval \<Rightarrow> error + tracker" where
  "watch st propName cb defaultValue =
     (case cb of
        NotCallable ty \<Rightarrow> Inl (not_a_function ty)
      | Callable body \<Rightarrow>
          (let trigger = length (triggers st);
               st1 = st\<lparr>triggers := triggers st @
                        [\<lparr>watchedProp = propName, userCallback = body, stored = Undefined\<rparr>]\<rparr>
           in (case (if is_object defaultValue then createDeepProxy st1 defaultValue (Function trigger)
                     else Inr (defaultValue, st1)) of
                 Inl e \<Rightarrow> Inl e
               | Inr (v, st2) \<Rightarrow>
                   Inr ((store st2 trigger v)
                         \<lparr>window := (window st2)(propName \<mapsto> trigger),
                          watchedVars := (if propName \<in> set (watchedVars st2) then watchedVars st2
                                          else watchedVars st2 @ [propName])\<rparr>))))"

text \<open>Reading a watched global, and reading a path of properties off a value:
  \<open>v[k1][k2]...\<close>, which gives the value or the exception of the first read
  that throws, and the state the reads leave. Properties of primitive values
  are not modelled; they read as \<open>undefined\<close>.\<close>

definition read_global :: "tracker \<Rightarrow> string \<Rightarrow> jsval" where
  "read_global st name =
     (case window st name of None \<Rightarrow> Undefined | Some trigger \<Rightarrow> stored (triggers st ! trigger))"


text \<open>
  A property is steady when reading it twice gives the same value: a data
  property, an accessor property whose getter returns a value it holds, or no
  property. A path off a value is steady when every property read on the way
  is.
\<close>

definition steady :: "slot option \<Rightarrow> bool" where
  "steady s = (case s of Some (Accessor (Creates literal) c) \<Rightarrow> False | _ \<Rightarrow> True)"


text \<open>The state when the script has been loaded, over the objects of the page.\<close>

definition fresh :: "hobj list \<Rightarrow> tracker" where
  "fresh objects =
     \<lparr> heap = objects, proxyCache = Map.empty, scheduledCallbacks = {}, microtasks = [],
       activeWatcher = None, watchedVars = [], window = Map.empty, triggers = [], calls = [] \<rparr>"

text \<open>Which statements go through a wrapper bound to the trigger \<open>t\<close> (a write or
  delete on a proxy whose callback is \<open>t\<close>, an assignment to a global whose
  accessor is \<open>t\<close>'s), and which are writes of the \<open>length\<close> of an array through
  a wrapper.\<close>

fun through :: "tracker \<Rightarrow> fnid \<Rightarrow> stmt \<Rightarrow> bool" where
  "through st t (Write a k v) =
     (a < length (heap st) \<and> (case heap st ! a of Proxy obj cb \<Rightarrow> cb = t | Plain arr ext props \<Rightarrow> False))"
| "through st t (Remove a k) =
     (a < length (heap st) \<and> (case heap st ! a of Proxy obj cb \<Rightarrow> cb = t | Plain arr ext props \<Rightarrow> False))"
| "through st t (Reassign name v) = (window st name = Some t)"
| "through st t (Throw m) = False"


text \<open>The set of scheduled callbacks and the queue agree: a callback is in the
  set exactly when a job for it is queued, and no job is queued twice.\<close>

definition queued :: "tracker \<Rightarrow> bool" where
  "queued st = (distinct (microtasks st) \<and> set (microtasks st) = scheduledCallbacks st)"



definition step_ok :: "tracker \<Rightarrow> tracker \<Rightarrow> bool" where
  "step_ok s s' =
     ((queued s \<longrightarrow> queued s') \<and> scheduledCallbacks s \<subseteq> scheduledCallbacks s' \<and>
      calls s' = calls s \<and> length (triggers s') = length (triggers s) \<and>
      activeWatcher s' = activeWatcher s)"

section \<open>A host for examples\<close>

text \<open>
  The closed examples below need a host. This one evaluates an expression that
  is a bound name to its binding and any other expression by a finite table
  (an expression outside the table throws a \<open>ReferenceError\<close>); its word
  replacement is that of \<open>\bname\b\<close> for a name made of word characters; it has
  no objects with a length, no template in any markup, and converts no string
  to a number. Its longest string has \<open>2^29 - 24\<close> characters, as in a current
  browser engine.
\<close>

definition is_word :: "char \<Rightarrow> bool" where
  "is_word c =
     (let k = (of_char c :: nat) in
      (48 \<le> k \<and> k \<le> 57) \<or> (65 \<le> k \<and> k \<le> 90) \<or> (97 \<le> k \<and> k \<le> 122) \<or> k = 95)"

fun replace_word_from :: "nat \<Rightarrow> bool \<Rightarrow> string \<Rightarrow> string \<Rightarrow> string \<Rightarrow> string" where
  "replace_word_from k pw name r [] = []"
| "replace_word_from k pw name r (c # cs) =
     (if 0 < k then replace_word_from (k - 1) (is_word c) name r cs
      else if name \<noteq> [] \<and> \<not> pw \<and> prefix name (c # cs) \<and>
              \<not> (case drop (length name) (c # cs) of [] \<Rightarrow> False | d # ds \<Rightarrow> is_word d)
      then r @ replace_word_from (length name - 1) (is_word c) name r cs
      else c # replace_word_from 0 (is_word c) name r cs)"

definition table_host :: "(string \<times> (error + jsval)) list \<Rightarrow> host" where
  "table_host tbl =
     \<lparr> hEval = (\<lambda>kv e. case map_of kv e of
                          Some v \<Rightarrow> Inr v
                        | None \<Rightarrow> (case map_of tbl e of
                                     Some r \<Rightarrow> r
                                   | None \<Rightarrow> Inl (Exn ReferenceError (e @ '' is not defined'')))),
       hObjString = (\<lambda>a. Inr ''[object Object]''),
       hToPrimitive = (\<lambda>a. Inr (Str ''[object Object]'')),
       hStrNum = (\<lambda>s. None),
       hElems = (\<lambda>a. None),
       hQueryTemplate = (\<lambda>idattr ident markup. Inr None),
       hReplaceWord = (\<lambda>name r s. Inr (replace_word_from 0 False name r s)),
       hMaxLength = 536870888 \<rparr>"









text \<open>States for the examples: an array \<open>[7]\<close> watched as \<open>xs\<close>, the same after
  \<open>xs.push(8); xs[0] = 9\<close>, a watcher of \<open>xs\<close> whose callback writes \<open>xs[0]\<close>,
  and an object \<open>{ user: { name: 'Ann' } }\<close> wrapped once and after one read
  of \<open>user\<close>.\<close>

definition array_objects :: "hobj list" where
  "array_objects = [Plain True True [(''0'', field (Num 7)), (''length'', Data (Num 1) True False)]]"

definition watched_array :: tracker where
  "watched_array =
     (fresh (array_objects @ [Proxy 0 0]))
       \<lparr>proxyCache := [0 \<mapsto> [0 \<mapsto> 1]],
        triggers := [\<lparr>watchedProp = ''xs'', userCallback = [], stored = Ref 1\<rparr>],
        window := [''xs'' \<mapsto> 0],
        watchedVars := [''xs'']\<rparr>"


definition self_watcher :: tracker where
  "self_watcher =
     watched_array\<lparr>triggers := [\<lparr>watchedProp = ''xs'', userCallback = [Write 1 ''0'' (Num 0)], stored = Ref 1\<rparr>],
       scheduledCallbacks := {0}\<rparr>"






section \<open>Properties of the range generator\<close>

lemma range_up_step_pos:
  "0 < step \<Longrightarrow> range_up i endv step = (if i \<le> endv then i # range_up (i + step) endv step else [])"
  by (subst range_up.simps) simp

lemma createRangeArray_1_4: "createRangeArray 1 4 1 = [1, 2, 3, 4]"
  by (simp add: createRangeArray_def range_up_step_pos)

text \<open>
  C10. With \<open>step = 0\<close> neither loop is entered: for every start and end the call
  returns the empty array. The function is total in the model, so the call
  terminates.
\<close>

theorem createRangeArray_zero_step: "createRangeArray start endv 0 = []"
  by (simp add: createRangeArray_def)

section \<open>Properties of mustache interpolation\<close>

lemma show_number_notation:
  "show_number 42 = ''42'' \<and> show_number (- 7) = ''-7'' \<and>
   show_number 1000000000000000000000 = ''1e+21'' \<and> show_number 12000000000000000000000 = ''1.2e+22''"
  by (simp add: show_number_def exponent_form_def Let_def)

lemma find_sub_first:
  "n \<noteq> [] \<Longrightarrow> find_sub n (a @ butlast n) = None \<Longrightarrow> find_sub n (a @ n @ b) = Some (a, b)"
proof (induction a)
  case Nil
  then obtain c cs where "n @ b = c # cs" by (cases n) auto
  then show ?case by simp (metis append_eq_conv_conj prefixI)
next
  case (Cons c a)
  from Cons.prems have np: "\<not> prefix n (c # a @ butlast n)" and rest: "find_sub n (a @ butlast n) = None"
    by (auto split: if_splits option.splits)
  have "\<not> prefix n (c # a @ n @ b)"
  proof
    assume p: "prefix n (c # a @ n @ b)"
    have q: "prefix (c # a @ butlast n) (c # a @ n @ b)"
      using Cons.prems(1) by (metis append.assoc append_Cons append_butlast_last_id prefixI)
    have "length n \<le> length (c # a @ butlast n)" using Cons.prems(1) by (cases n) auto
    with p q have "prefix n (c # a @ butlast n)" by (rule prefix_length_prefix)
    with np show False ..
  qed
  with Cons.IH[OF Cons.prems(1) rest] show ?case by simp
qed

lemma parseTemplate_Nil: "parseTemplate h genv [] = []"
  by (simp add: parseTemplate_def)

lemma parseTemplate_no_placeholder:
  "find_sub ''{{'' t = None \<Longrightarrow> parseTemplate h genv t = t"
  unfolding parseTemplate_def by (subst replace_between.simps) simp

text \<open>
  C5, as the code has it. Take the first placeholder of a template: the text
  \<open>pre\<close> before it holds no \<open>{{\<close>, not even one that its last character would
  start, and the expression holds no \<open>}}\<close> in the same sense. The placeholder
  is replaced by the string form of the value of the trimmed expression when
  that value is neither \<open>undefined\<close> nor \<open>null\<close>; by the empty string when it is
  \<open>undefined\<close> or \<open>null\<close>, and also when evaluating the expression throws (the
  evaluator has caught the exception and returned \<open>undefined\<close>); the literal
  text \<open>{{...}}\<close> stays only when converting the value to a string throws. The
  rest of the template is interpolated the same way.
\<close>

theorem parseTemplate_placeholder:
  assumes "find_sub ''{{'' (pre @ ''{'') = None" and "find_sub ''}}'' (expr @ ''}'') = None"
  shows "parseTemplate h genv (pre @ ''{{'' @ expr @ ''}}'' @ post) =
           pre @
           (case hEval h genv (js_trim expr) of
              Inl e \<Rightarrow> []
            | Inr v \<Rightarrow>
                (if v = Undefined \<or> v = Null then []
                 else (case js_String h v of Inr s \<Rightarrow> s | Inl e \<Rightarrow> ''{{'' @ expr @ ''}}'')))
           @ parseTemplate h genv post"
proof -
  have a: "find_sub ''{{'' (pre @ ''{{'' @ expr @ ''}}'' @ post) = Some (pre, expr @ ''}}'' @ post)"
    using find_sub_first[of "''{{''" pre] assms(1) by simp
  have b: "find_sub ''}}'' (expr @ ''}}'' @ post) = Some (expr, post)"
    using find_sub_first[of "''}}''" expr] assms(2) by simp
  have c: "replace_between ''{{'' ''}}'' f (pre @ ''{{'' @ expr @ ''}}'' @ post) =
             pre @ f (''{{'' @ expr @ ''}}'') expr @ replace_between ''{{'' ''}}'' f post" for f
    apply (subst replace_between.simps)
    apply (simp only: a b option.case prod.case)
    apply simp
    done
  show ?thesis
    unfolding parseTemplate_def c
    by (simp add: mustache_def unsafeEval_def Let_def split: sum.splits)
qed

text \<open>The example of the specification, on a host that evaluates \<open>'A'+'B'\<close> to
  \<open>AB\<close>.\<close>

theorem parseTemplate_placeholder_witness:
  "parseTemplate (table_host [(CHR 0x27 # ''A'+'B'' @ [CHR 0x27], Inr (Str ''AB''))]) []
     ''Hello {{ 'A'+'B' }}'' = ''Hello AB''"
proof -
  have 1: "find_sub ''{{'' (''Hello '' @ ''{'') = None" by simp
  have 2: "find_sub ''}}'' ('' 'A'+'B' '' @ ''}'') = None" by simp
  show ?thesis
    using parseTemplate_placeholder[OF 1 2,
        of "table_host [(CHR 0x27 # ''A'+'B'' @ [CHR 0x27], Inr (Str ''AB''))]" "[]" "[]"]
    by (simp add: parseTemplate_Nil table_host_def js_trim_def js_whitespace_def)
qed

text \<open>The claim as the specification words it fails: a placeholder whose
  expression throws does not stay in the output, it becomes the empty string.\<close>

theorem parseTemplate_throw_counterexample:
  "hEval (table_host []) [] ''boom()'' = Inl (Exn ReferenceError ''boom() is not defined'') \<and>
   parseTemplate (table_host []) [] ''a{{boom()}}b'' = ''ab'' \<and>
   parseTemplate (table_host []) [] ''a{{boom()}}b'' \<noteq> ''a{{boom()}}b''"
  by (simp add: parseTemplate_def mustache_def unsafeEval_def table_host_def js_trim_def
      js_whitespace_def)

section \<open>The numeric range of a loop element\<close>

text \<open>
  C6. A \<open>for-loop\<close> with \<open>start="1" end="5"\<close>, no \<open>array\<close> and no \<open>step\<close>, on a
  host that evaluates \<open>5\<close> to the number 5. The range is built as
  \<open>createRangeArray(1, 4, 1)\<close>, the loop then runs its index from \<open>start\<close> up to
  the length of that range and reads the range at the index: three
  iterations, bound to 2, 3 and 4 (not five, bound to 1..5).
\<close>

theorem loop_range_1_5:
  "loop_iterations (table_host [(''5'', Inr (Num 5))]) []
     \<lparr> attr = [''loopid'' \<mapsto> ''r'', ''start'' \<mapsto> ''1'', ''end'' \<mapsto> ''5''],
       originalTemplate = Some ''<li>${value}</li>'', innerHTML = [] \<rparr>
     ''<li>${value}</li>''
   = Some [(1, Num 2), (2, Num 3), (3, Num 4)] \<and>
   map_option innerHTML
     (loop_render (table_host [(''5'', Inr (Num 5))]) []
        \<lparr> attr = [''loopid'' \<mapsto> ''r'', ''start'' \<mapsto> ''1'', ''end'' \<mapsto> ''5''],
          originalTemplate = Some ''<li>${value}</li>'', innerHTML = [] \<rparr>)
   = Some ''<li>2</li><li>3</li><li>4</li><template loopid=\"r\"><li>${value}</li></template>''"
  by (simp add: loop_iterations_def loop_render_def loop_output_def storeTemplate_def captured_def
      template_copy_def loop_run_def loop_array_def loop_array0_def loop_end_def
      loop_bound_def loop_start_def loop_step_def table_host_def present_def attr_text_def
      unsafeEval_def to_number_def parseInt_def js_whitespace_def is_digit_def digit_of_def
      createRangeArray_def range_up_step_pos for_loop.simps iteration_def or_default_def
      js_index_def loop_expr_def Let_def is_word_def show_number_def parseTemplate_def js_append_def)

section \<open>Properties of condition evaluation\<close>

lemma unsafeEval_no_context:
  "unsafeEval h genv e [] = (case hEval h genv e of Inl x \<Rightarrow> Undefined | Inr v \<Rightarrow> v)"
  by (simp add: unsafeEval_def)

lemma js_less_undefined:
  "v = Undefined \<or> c = Undefined \<Longrightarrow> js_less h v c = Inr (Some r) \<Longrightarrow> False"
  by (auto simp: js_less_def split: sum.splits jsval.splits option.splits)

lemma relational_undefined:
  assumes "v = Undefined \<or> c = Undefined"
  shows "\<not> caught (js_gt h v c)" "\<not> caught (js_lt h v c)" "\<not> caught (js_ge h v c)" "\<not> caught (js_le h v c)"
  using assms js_less_undefined[of v c h] js_less_undefined[of c v h]
  by (auto simp: caught_def js_gt_def js_lt_def js_ge_def js_le_def split: sum.splits option.splits)

lemma strict_eq_undefined:
  "v = Undefined \<or> c = Undefined \<Longrightarrow> strict_eq v c = (v = Undefined \<and> c = Undefined)"
  by (auto simp: strict_eq_def)

text \<open>
  An expression that raises an error counts as \<open>undefined\<close>, because the
  evaluator has caught the error. When that is the \<open>value\<close> expression of an
  if-node, or the expression of the operand it honours, the condition is
  false when the honoured operand is \<open>gt\<close>, \<open>lt\<close>, \<open>gte\<close> or \<open>lte\<close> or when
  there is none; under \<open>eq\<close> it is true exactly when both sides are
  \<open>undefined\<close>, and under \<open>neq\<close> it is true unless both sides are \<open>undefined\<close>.
\<close>

lemma evaluateCondition_undefined:
  assumes "hEval h genv (attr_text (ifEl ''value'')) = Inl x \<or>
           (\<exists>e y. operand ifEl = Some e \<and> hEval h genv e = Inl y)"
  shows "evaluateCondition h genv ifEl =
     (case ifEl ''eq'' of
        Some e \<Rightarrow>
          unsafeEval h genv (attr_text (ifEl ''value'')) [] = Undefined \<and> unsafeEval h genv e [] = Undefined
      | None \<Rightarrow>
          (case ifEl ''neq'' of
             Some e \<Rightarrow>
               \<not> (unsafeEval h genv (attr_text (ifEl ''value'')) [] = Undefined \<and>
                  unsafeEval h genv e [] = Undefined)
           | None \<Rightarrow> False))"
proof -
  define v where "v = unsafeEval h genv (attr_text (ifEl ''value'')) []"
  have u: "v = Undefined \<or> (\<exists>e. operand ifEl = Some e \<and> unsafeEval h genv e [] = Undefined)"
    using assms by (auto simp: v_def unsafeEval_no_context)
  show ?thesis
  proof (cases "v = Undefined")
    case True
    then show ?thesis
      unfolding evaluateCondition_def v_def[symmetric] Let_def
      by (auto simp: strict_eq_undefined relational_undefined split: option.splits)
  next
    case False
    with u obtain e where e: "operand ifEl = Some e" "unsafeEval h genv e [] = Undefined" by auto
    then show ?thesis
      unfolding evaluateCondition_def v_def[symmetric] Let_def
      by (auto simp: operand_def strict_eq_undefined relational_undefined split: option.splits)
  qed
qed

text \<open>\<open>value="user.name" gt="3"\<close> with no \<open>user\<close>: the condition is false.\<close>

lemma evaluateCondition_undefined_gt:
  "\<not> evaluateCondition (table_host [(''3'', Inr (Num 3))]) [] [''value'' \<mapsto> ''user.name'', ''gt'' \<mapsto> ''3'']"
proof -
  have "hEval (table_host [(''3'', Inr (Num 3))]) [] (attr_text ([''value'' \<mapsto> ''user.name'', ''gt'' \<mapsto> ''3''] ''value''))
        = Inl (Exn ReferenceError ''user.name is not defined'')"
    by (simp add: table_host_def attr_text_def)
  then show ?thesis
    using evaluateCondition_undefined[of "table_host [(''3'', Inr (Num 3))]" "[]"
        "[''value'' \<mapsto> ''user.name'', ''gt'' \<mapsto> ''3'']" "Exn ReferenceError ''user.name is not defined''"]
    by simp
qed

text \<open>
  C7. An if-node \<open>value="user.name" neq="0" elseid="e"\<close> on a page with no
  \<open>user\<close>:
  evaluating the \<open>value\<close> expression raises a \<open>ReferenceError\<close>, and the
  condition is not treated as false. \<open>_evaluateCondition\<close> returns \<open>true\<close>, and
  \<open>_processSingleIfElse\<close> replaces the \<open>if-condition\<close> by its children and
  removes the \<open>else-condition\<close>: the if branch is taken, not the else
  branch. The \<open>catch\<close> of \<open>_evaluateCondition\<close> is not reached, because
  \<open>unsafeEval\<close> has caught the error and returned \<open>undefined\<close>, and
  \<open>undefined !== 0\<close> holds.
\<close>

theorem evaluateCondition_error_taken:
  "hEval (table_host [(''0'', Inr (Num 0))]) [] ''user.name'' = Inl (Exn ReferenceError ''user.name is not defined'') \<and>
   evaluateCondition (table_host [(''0'', Inr (Num 0))]) [] [''value'' \<mapsto> ''user.name'', ''neq'' \<mapsto> ''0'', ''elseid'' \<mapsto> ''e''] \<and>
   processSingleIfElse (table_host [(''0'', Inr (Num 0))]) [] [''value'' \<mapsto> ''user.name'', ''neq'' \<mapsto> ''0'', ''elseid'' \<mapsto> ''e'']
     = (Unwrapped, Removed)"
  by (simp add: processSingleIfElse_def present_def evaluateCondition_def unsafeEval_def table_host_def
      attr_text_def strict_eq_def)

section \<open>Properties of the re-render dispatcher\<close>

lemma attempt_none_fails: "attempt (\<lambda>r. False) rs = (rs, False)"
  by (induction rs) auto

lemma setState_older_scoped:
  "present (loopid opts) \<Longrightarrow>
   setState_older (\<lambda>r. False) opts =
     only_if (showloader opts) LoaderShow @ [LoopById (attr_text (loopid opts))] @
     only_if (showloader opts) LoaderHide"
  by (simp add: setState_older_def plan_older_def finish_def attempt_none_fails)

text \<open>
  C9. The call \<open>setState({ loopid: 'featureCards', showloader: false })\<close> of
  \<open>docs/js/app.js\<close>, when no refresh throws. The current \<open>setState\<close> renders
  the loops with that identifier and then goes on with every category whose
  option defaults to true; the older \<open>setState\<close> renders those loops and
  returns.
\<close>

theorem setState_scoped_loop:
  "setState (\<lambda>r. False) (defaults\<lparr>loopid := Some ''featureCards'', showloader := False\<rparr>) =
     [LoopById ''featureCards'', DataJs, DataInnerHtml, AllLoops, DataLoops, AllConditions] \<and>
   setState_older (\<lambda>r. False) (defaults\<lparr>loopid := Some ''featureCards'', showloader := False\<rparr>) =
     [LoopById ''featureCards'']"
  by (simp add: setState_def setState_older_def plan_def plan_older_def bulk_def finish_def
      only_if_def defaults_def present_def attr_text_def)

section \<open>Properties of the captured template\<close>

lemma captured_innerHTML [simp]: "captured (el\<lparr>innerHTML := x\<rparr>) = captured el"
  by (simp add: captured_def)




lemma loop_start_innerHTML [simp]: "loop_start (el\<lparr>innerHTML := x\<rparr>) = loop_start el"
  by (simp add: loop_start_def)

lemma loop_step_innerHTML [simp]: "loop_step (el\<lparr>innerHTML := x\<rparr>) = loop_step el"
  by (simp add: loop_step_def)

lemma loop_array0_innerHTML [simp]:
  "loop_array0 h genv (el\<lparr>innerHTML := x\<rparr>) = loop_array0 h genv el"
  by (simp add: loop_array0_def)

lemma loop_end_innerHTML [simp]: "loop_end h genv (el\<lparr>innerHTML := x\<rparr>) = loop_end h genv el"
  by (simp add: loop_end_def cong: option.case_cong sum.case_cong list.case_cong prod.case_cong if_cong)

lemma loop_array_innerHTML [simp]:
  "loop_array h genv (el\<lparr>innerHTML := x\<rparr>) = loop_array h genv el"
  by (simp add: loop_array_def cong: option.case_cong sum.case_cong list.case_cong prod.case_cong if_cong)

lemma loop_run_innerHTML [simp]:
  "loop_run h genv (el\<lparr>innerHTML := x\<rparr>) t = loop_run h genv el t"
  by (simp add: loop_run_def cong: option.case_cong sum.case_cong list.case_cong prod.case_cong if_cong)

lemma loop_output_innerHTML [simp]:
  "loop_output h genv (el\<lparr>innerHTML := x\<rparr>) t = loop_output h genv el t"
  by (simp add: loop_output_def cong: option.case_cong sum.case_cong list.case_cong prod.case_cong if_cong)

lemma loop_failed_innerHTML [simp]: "loop_failed (el\<lparr>innerHTML := x\<rparr>) e = loop_failed el e"
  by (simp add: loop_failed_def)





lemma condition_failed_innerHTML [simp]: "condition_failed (el\<lparr>innerHTML := x\<rparr>) e = condition_failed el e"
  by (simp add: condition_failed_def)

lemma condition_output_innerHTML [simp]:
  "condition_output h genv resolve (el\<lparr>innerHTML := x\<rparr>) t = condition_output h genv resolve el t"
  by (simp add: condition_output_def cong: sum.case_cong)





lemma js_append_Inr: "js_append h a b = Inr c \<Longrightarrow> c = a @ b \<and> length a + length b \<le> hMaxLength h"
  by (simp add: js_append_def split: if_splits)


text \<open>The loop of \<open>render\<close> returns when the step is positive, because the index
  reaches the bound, and when every iteration adds to the output or throws,
  because the output reaches the longest string.\<close>

lemma for_loop_ascending:
  "0 < step \<Longrightarrow> \<exists>r. for_loop h body i bound step acc = Some r"
proof (induction "nat (bound - i)" arbitrary: i acc rule: less_induct)
  case less
  show ?case
  proof (cases "i < bound")
    case False
    then show ?thesis by (subst for_loop.simps) simp
  next
    case True
    show ?thesis
    proof (cases "body i")
      case (Inl e)
      with True show ?thesis by (subst for_loop.simps) simp
    next
      case b: (Inr html)
      show ?thesis
      proof (cases "js_append h (fst acc) html")
        case (Inl e)
        with True b show ?thesis by (subst for_loop.simps) simp
      next
        case app: (Inr out)
        from True less.prems have "nat (bound - (i + step)) < nat (bound - i)" by simp
        from less.hyps[OF this less.prems]
        obtain r where "for_loop h body (i + step) bound step (out, snd acc @ [i]) = Some r"
          by blast
        with True b app show ?thesis by (subst for_loop.simps) simp
      qed
    qed
  qed
qed

lemma for_loop_growing:
  assumes "\<forall>j. body j \<noteq> Inr []"
  shows "\<exists>r. for_loop h body i bound step acc = Some r"
proof (induction "Suc (hMaxLength h) - length (fst acc)" arbitrary: i acc rule: less_induct)
  case less
  show ?case
  proof (cases "i < bound")
    case False
    then show ?thesis by (subst for_loop.simps) simp
  next
    case True
    show ?thesis
    proof (cases "body i")
      case (Inl e)
      with True show ?thesis by (subst for_loop.simps) simp
    next
      case b: (Inr html)
      with assms have ne: "html \<noteq> []" by metis
      show ?thesis
      proof (cases "js_append h (fst acc) html")
        case (Inl e)
        with True b show ?thesis by (subst for_loop.simps) simp
      next
        case app: (Inr out)
        from js_append_Inr[OF app] ne
        have "Suc (hMaxLength h) - length (fst (out, snd acc @ [i])) < Suc (hMaxLength h) - length (fst acc)"
          by (cases html) auto
        from less.hyps[OF this]
        obtain r where "for_loop h body (i + step) bound step (out, snd acc @ [i]) = Some r"
          by blast
        with True b app show ?thesis by (subst for_loop.simps) simp
      qed
    qed
  qed
qed


text \<open>With a negative step and iterations that add nothing to the output from
  the first index down, the loop does not return.\<close>

lemma for_loop_returned:
  assumes "for_loop h body i bound step acc = Some y"
  shows "\<not> (step < 0 \<and> (\<forall>j\<le>i. body j = Inr []) \<and> i < bound \<and> length (fst acc) \<le> hMaxLength h)"
proof (rule for_loop.raw_induct[OF _ assms], goal_cases)
  case (1 f h body i bound step acc y)
  show ?case
  proof
    assume c: "step < 0 \<and> (\<forall>j\<le>i. body j = Inr []) \<and> i < bound \<and> length (fst acc) \<le> hMaxLength h"
    then have b: "body i = Inr []" by simp
    from c 1(2) have r: "f h body (i + step) bound step (fst acc, snd acc @ [i]) = Some y"
      unfolding b by (simp add: js_append_def)
    have "\<not> (step < 0 \<and> (\<forall>j\<le>i + step. body j = Inr []) \<and> i + step < bound \<and>
            length (fst (fst acc, snd acc @ [i])) \<le> hMaxLength h)"
      by (rule 1(1)[OF r])
    with c show False by simp
  qed
qed

lemma for_loop_never:
  assumes "step < 0" and "\<forall>j\<le>i. body j = Inr []" and "i < bound" and "length (fst acc) \<le> hMaxLength h"
  shows "for_loop h body i bound step acc = None"
proof (cases "for_loop h body i bound step acc")
  case (Some y)
  from for_loop_returned[OF Some] assms show ?thesis by simp
qed simp


lemma loop_run_returns:
  assumes "0 < loop_step el \<or> loop_ends h genv el t"
  shows "\<exists>r. loop_run h genv el t = Some r"
proof -
  have "\<exists>r. for_loop h (iteration h genv t (or_default (attr el ''valueVar'') ''value'')
                 (or_default (attr el ''indexVar'') ''index'') array) i bound (loop_step el) acc = Some r"
    for array i bound acc
  proof (cases "0 < loop_step el")
    case True
    then show ?thesis by (rule for_loop_ascending)
  next
    case False
    with assms have "\<forall>j. iteration h genv t (or_default (attr el ''valueVar'') ''value'')
                 (or_default (attr el ''indexVar'') ''index'') array j \<noteq> Inr []"
      by (simp add: loop_ends_def)
    then show ?thesis by (rule for_loop_growing)
  qed
  then show ?thesis
    by (auto simp: loop_run_def split: sum.splits option.splits)
qed

lemma loop_output_returns:
  assumes "0 < loop_step el \<or> loop_ends h genv el t"
  shows "\<exists>r. loop_output h genv el t = Some r"
  using loop_run_returns[OF assms]
  by (auto simp: loop_output_def split: sum.splits option.splits)

lemma storeTemplate_step: "storeTemplate h idattr el = Inr el1 \<Longrightarrow> attr el1 = attr el"
  by (auto simp: storeTemplate_def split: if_splits sum.splits option.splits)


lemma loop_render_returns:
  assumes "0 < loop_step el"
  shows "\<exists>el1. loop_render h genv el = Some el1"
proof (cases "storeTemplate h ''loopid'' el")
  case (Inl e)
  then show ?thesis by (simp add: loop_render_def)
next
  case (Inr el1)
  then have "attr el1 = attr el" by (rule storeTemplate_step)
  then have "0 < loop_step el1" using assms by (simp add: loop_step_def)
  from loop_output_returns[OF disjI1[OF this]]
  have "\<exists>r. loop_output h genv el1 t = Some r" for t by blast
  then show ?thesis
    using Inr by (simp add: loop_render_def split: option.splits sum.splits) (metis option.distinct(1))
qed

lemma loop_connected_returns:
  "0 < loop_step el \<Longrightarrow> \<exists>r. loop_connected h genv el = Some r"
proof (cases "storeTemplate h ''loopid'' el")
  case (Inl e)
  then show ?thesis by (simp add: loop_connected_def)
next
  case (Inr el1)
  assume "0 < loop_step el"
  with storeTemplate_step[OF Inr] have "0 < loop_step el1" by (simp add: loop_step_def)
  from loop_render_returns[OF this, of h genv] Inr show ?thesis
    by (auto simp: loop_connected_def)
qed









section \<open>Properties of the wrappers\<close>






lemma createDeepProxy_function: "\<exists>p st1. createDeepProxy st v (Function cb) = Inr (p, st1)"
  by (auto simp: createDeepProxy_def Let_def split: jsval.splits option.splits)

















lemma watch_array:
  "watch (fresh array_objects) ''xs'' (Callable []) (Ref 0) = Inr watched_array"
  by (simp add: watch_def createDeepProxy_def store_def fresh_def array_objects_def watched_array_def Let_def)

lemmas tracker_eval =
  set_prop.simps delete_prop.simps get_prop.simps is_array.simps ordinary_set_def ordinary_delete_def
  index_of_def array_length_def parseInt_def js_whitespace_def is_digit_def digit_of_def
  scheduleCallback_def createDeepProxy_def store_def fresh_def assign_def Let_def
  ordinary_get_def own_property.simps fixed_def steady_def field_def set_length_def stuck_def
  length_fixed_def




section \<open>Properties of the schedule\<close>

lemma step_ok_refl: "step_ok s s"
  by (simp add: step_ok_def)

lemma step_ok_trans: "step_ok s s' \<Longrightarrow> step_ok s' s'' \<Longrightarrow> step_ok s s''"
  by (auto simp: step_ok_def)

lemma scheduleCallback_step: "step_ok st (scheduleCallback st cb)"
  by (auto simp: step_ok_def scheduleCallback_def queued_def)


lemma set_prop_step: "set_prop st a k v = Inr st' \<Longrightarrow> step_ok st st'"
proof (induction st a k v arbitrary: st' rule: set_prop.induct)
  case (1 st a k v)
  from "1.prems" have a: "a < length (heap st)"
    by (subst (asm) set_prop.simps) (simp split: if_splits)
  show ?case
  proof (cases "heap st ! a")
    case (Plain arr ext props)
    with "1.prems" a show ?thesis
      by (subst (asm) set_prop.simps) (auto simp: step_ok_def queued_def split: sum.splits)
  next
    case (Proxy obj cb)
    with "1.prems" a have na: "activeWatcher st \<noteq> Some cb" and lt: "obj < a"
      by (subst (asm) set_prop.simps, simp split: if_splits)+
    from "1.prems" a Proxy na lt obtain st1 where s: "set_prop st obj k v = Inr st1"
      and r: "st' = st1 \<or> st' = scheduleCallback st1 cb"
      by (subst (asm) set_prop.simps) (auto split: sum.splits if_splits)
    from "1.IH"[OF a Proxy na lt s] r scheduleCallback_step[of st1 cb] show ?thesis
      by (auto intro: step_ok_trans)
  qed
qed

lemma delete_prop_step: "delete_prop st a k = Inr st' \<Longrightarrow> step_ok st st'"
proof (induction st a k arbitrary: st' rule: delete_prop.induct)
  case (1 st a k)
  from "1.prems" have a: "a < length (heap st)"
    by (subst (asm) delete_prop.simps) (simp split: if_splits)
  show ?case
  proof (cases "heap st ! a")
    case (Plain arr ext props)
    with "1.prems" a show ?thesis
      by (subst (asm) delete_prop.simps) (auto simp: step_ok_def queued_def)
  next
    case (Proxy obj cb)
    with "1.prems" a have na: "activeWatcher st \<noteq> Some cb" and lt: "obj < a"
      by (subst (asm) delete_prop.simps, simp split: if_splits)+
    from "1.prems" a Proxy na lt obtain st1 where s: "delete_prop st obj k = Inr st1"
      and r: "st' = scheduleCallback st1 cb"
      by (subst (asm) delete_prop.simps) (auto split: sum.splits if_splits)
    from "1.IH"[OF a Proxy na lt s] r scheduleCallback_step[of st1 cb] show ?thesis
      by (auto intro: step_ok_trans)
  qed
qed

lemma createDeepProxy_step: "createDeepProxy st v cb = Inr (p, st1) \<Longrightarrow> step_ok st st1"
  by (auto simp: createDeepProxy_def step_ok_def queued_def Let_def
      split: jsval.splits callback.splits option.splits)

lemma store_step: "step_ok st (store st t v)"
  by (simp add: store_def step_ok_def queued_def)

lemma assign_step: "assign st name v = Inr st' \<Longrightarrow> step_ok st st'"
  by (auto simp: assign_def split: option.splits if_splits sum.splits
      intro: step_ok_refl step_ok_trans[OF store_step scheduleCallback_step]
        step_ok_trans[OF createDeepProxy_step step_ok_trans[OF store_step scheduleCallback_step]])

lemma exec_step: "exec st s = Inr st' \<Longrightarrow> step_ok st st'"
  by (cases s) (auto intro: set_prop_step delete_prop_step assign_step)

lemma run_step: "run st ss = (st', r) \<Longrightarrow> step_ok st st'"
proof (induction ss arbitrary: st)
  case Nil
  then show ?case by (simp add: step_ok_refl)
next
  case (Cons s ss)
  show ?case
  proof (cases "exec st s")
    case (Inl e)
    with Cons.prems show ?thesis by (simp add: step_ok_refl)
  next
    case (Inr st1)
    with Cons.prems have "run st1 ss = (st', r)" by simp
    from exec_step[OF Inr] Cons.IH[OF this] show ?thesis by (rule step_ok_trans)
  qed
qed


lemma queued_fresh: "queued (fresh objects)"
  by (simp add: queued_def fresh_def)

lemma watch_queued: "watch st name cb v = Inr st' \<Longrightarrow> queued st \<Longrightarrow> queued st'"
  by (auto simp: watch_def createDeepProxy_def store_def queued_def Let_def
      split: usercb.splits if_splits jsval.splits option.splits)

lemma run_job_queued:
  assumes "queued st" and "microtasks st = cb # rest"
  shows "queued (fst (run_job (st\<lparr>microtasks := rest\<rparr>) cb))"
proof -
  define st1 where
    "st1 = st\<lparr>microtasks := rest, scheduledCallbacks := scheduledCallbacks st - {cb}, activeWatcher := Some cb\<rparr>"
  from assms have q1: "queued st1" by (auto simp: queued_def st1_def)
  have "queued (fst (invoke st1 cb))"
  proof (cases "cb < length (triggers st1)")
    case True
    define st2 where
      "st2 = st1\<lparr>calls := calls st1 @
                [(cb, watchedProp (triggers st1 ! cb), stored (triggers st1 ! cb), heap st1)]\<rparr>"
    from q1 have "queued st2" by (simp add: queued_def st2_def)
    with run_step[of st2 "userCallback (triggers st1 ! cb)"
        "fst (run st2 (userCallback (triggers st1 ! cb)))" "snd (run st2 (userCallback (triggers st1 ! cb)))"]
    have "queued (fst (run st2 (userCallback (triggers st1 ! cb))))" by (simp add: step_ok_def)
    with True show ?thesis by (simp add: invoke_def Let_def st2_def)
  next
    case False
    with q1 show ?thesis by (simp add: invoke_def)
  qed
  then show ?thesis
    by (simp add: run_job_def split_beta st1_def queued_def)
qed








text \<open>
  C2. While the trigger \<open>t\<close> is the active watcher, a statement that goes
  through a wrapper bound to \<open>t\<close> (a property write, a property delete, a
  re-assignment of the variable) throws the self-mutation error, and so
  changes and schedules nothing. After a job the active watcher is empty,
  whether its callback has returned or thrown. And a job of \<open>t\<close> whose
  callback starts with such a statement ends with that error, with \<open>t\<close> not
  scheduled again and the queue as it was.
\<close>

theorem self_mutation_guard:
  "(activeWatcher st = Some t \<and> through st t s \<longrightarrow> exec st s = Inl (self_mutation st t)) \<and>
   activeWatcher (fst (run_job st cb)) = None \<and>
   (t < length (triggers st) \<and> userCallback (triggers st ! t) = s # rest \<and> through st t s \<longrightarrow>
      snd (run_job st t) = Some (self_mutation st t) \<and>
      t \<notin> scheduledCallbacks (fst (run_job st t)) \<and>
      microtasks (fst (run_job st t)) = microtasks st)"
proof -
  have g: "exec st' s = Inl (self_mutation st' t)" if "activeWatcher st' = Some t" "through st' t s" for st'
  proof (cases s)
    case (Write a k v)
    with that(2) obtain obj where a: "a < length (heap st')" and p: "heap st' ! a = Proxy obj t"
      by (auto split: hobj.splits)
    have "set_prop st' a k v = Inl (self_mutation st' t)"
      by (subst set_prop.simps) (simp add: a p that(1))
    with Write show ?thesis by simp
  next
    case (Remove a k)
    with that(2) obtain obj where a: "a < length (heap st')" and p: "heap st' ! a = Proxy obj t"
      by (auto split: hobj.splits)
    have "delete_prop st' a k = Inl (self_mutation st' t)"
      by (subst delete_prop.simps) (simp add: a p that(1))
    with Remove show ?thesis by simp
  next
    case (Reassign name v)
    with that show ?thesis by (simp add: assign_def)
  next
    case (Throw m)
    with that show ?thesis by simp
  qed
  have a: "activeWatcher (fst (run_job st cb)) = None"
    by (simp add: run_job_def split_beta)
  have j: "snd (run_job st t) = Some (self_mutation st t) \<and>
           t \<notin> scheduledCallbacks (fst (run_job st t)) \<and>
           microtasks (fst (run_job st t)) = microtasks st"
    if t: "t < length (triggers st)" and b: "userCallback (triggers st ! t) = s # rest" and w: "through st t s"
  proof -
    define st1 where
      "st1 = st\<lparr>scheduledCallbacks := scheduledCallbacks st - {t}, activeWatcher := Some t,
                calls := calls st @ [(t, watchedProp (triggers st ! t), stored (triggers st ! t), heap st)]\<rparr>"
    have "through st1 t s" using w by (cases s) (auto simp: st1_def)
    moreover have "activeWatcher st1 = Some t" by (simp add: st1_def)
    ultimately have "exec st1 s = Inl (self_mutation st1 t)" by (rule g[rotated])
    moreover have "self_mutation st1 t = self_mutation st t" by (simp add: self_mutation_def st1_def)
    ultimately have "run st1 (s # rest) = (st1, Some (self_mutation st t))" by simp
    then have "run_job st t = (st1\<lparr>activeWatcher := None\<rparr>, Some (self_mutation st t))"
      using t b by (simp add: run_job_def invoke_def Let_def st1_def)
    then show ?thesis by (simp add: st1_def)
  qed
  from g a j show ?thesis by blast
qed

text \<open>Deleting \<open>xs[0]\<close> while the watcher of \<open>xs\<close> is active throws, and so does the
  job of a watcher whose callback writes \<open>xs[0]\<close>; the job leaves the active
  watcher empty (the state it returns is the initial one but for the set of
  scheduled callbacks and the recorded call).\<close>

theorem self_mutation_guard_witness:
  "exec (watched_array\<lparr>activeWatcher := Some 0\<rparr>) (Remove 1 ''0'') =
     Inl (Exn PlainError (''HTTL-S Error: Watcher for \"xs\" mutated its own state.'' @ [CHR 0x0A] @
          ''This causes infinite loops. Move mutations outside the watcher callback.'')) \<and>
   run_job self_watcher 0 =
     (self_watcher\<lparr>scheduledCallbacks := {},
        calls := [(0, ''xs'', Ref 1, heap self_watcher)]\<rparr>,
      Some (Exn PlainError (''HTTL-S Error: Watcher for \"xs\" mutated its own state.'' @ [CHR 0x0A] @
          ''This causes infinite loops. Move mutations outside the watcher callback.'')))"
proof -
  have 1: "activeWatcher (watched_array\<lparr>activeWatcher := Some 0\<rparr>) = Some 0 \<and>
           through (watched_array\<lparr>activeWatcher := Some 0\<rparr>) 0 (Remove 1 ''0'')"
    by (simp add: watched_array_def fresh_def array_objects_def)
  have 2: "self_mutation (watched_array\<lparr>activeWatcher := Some 0\<rparr>) 0 =
           Exn PlainError (''HTTL-S Error: Watcher for \"xs\" mutated its own state.'' @ [CHR 0x0A] @
          ''This causes infinite loops. Move mutations outside the watcher callback.'')"
    by (simp add: self_mutation_def watched_array_def)
  have 3: "run_job self_watcher 0 =
     (self_watcher\<lparr>scheduledCallbacks := {},
        calls := [(0, ''xs'', Ref 1, heap self_watcher)]\<rparr>,
      Some (Exn PlainError (''HTTL-S Error: Watcher for \"xs\" mutated its own state.'' @ [CHR 0x0A] @
          ''This causes infinite loops. Move mutations outside the watcher callback.'')))"
    by (simp add: run_job_def invoke_def self_watcher_def watched_array_def array_objects_def
        self_mutation_def tracker_eval)
  from self_mutation_guard[of "watched_array\<lparr>activeWatcher := Some 0\<rparr>" 0 "Remove 1 ''0''"] 1 2 3
  show ?thesis by simp
qed

section \<open>Registering a name twice\<close>

text \<open>
  C4. \<open>watch('count', cb1, 1)\<close> followed by \<open>watch('count', cb2, 2)\<close>. The
  second call is not ignored: it defines the accessor anew, with a new
  trigger that calls \<open>cb2\<close>, and the variable reads 2. Only the set of
  watched names is as it was.
\<close>

theorem watch_twice:
  "(case watch (fresh []) ''count'' (Callable []) (Num 1) of
      Inl e \<Rightarrow> False
    | Inr st1 \<Rightarrow>
        (case watch st1 ''count'' (Callable [Throw ''second'']) (Num 2) of
           Inl e \<Rightarrow> False
         | Inr st2 \<Rightarrow>
             read_global st1 ''count'' = Num 1 \<and> window st1 ''count'' = Some 0 \<and>
             read_global st2 ''count'' = Num 2 \<and> window st2 ''count'' = Some 1 \<and>
             userCallback (triggers st2 ! 1) = [Throw ''second''] \<and>
             watchedVars st2 = [''count'']))"
  by (simp add: watch_def read_global_def store_def fresh_def Let_def)

end
